theory Spec2Isabelle
  imports Main "HOL-Library.Sublist" "HOL-Library.AList"
begin

section \<open>JavaScript values used by the proxy\<close>

text \<open>
  The repository holds two programs: \<^verbatim>\<open>mitm-proxy.js\<close> (a decrypt-and-redirect proxy, lines
  1-200 of the source file) and \<^verbatim>\<open>enhanced-passthrough-proxy.js\<close> (a pass-through proxy with
  logging and modification hooks, lines 201-658). Both are embedded here. Names of the first
  program carry the prefix \<open>mitm_\<close> where the two programs use the same name.

  A JavaScript string is a list of code units; \<^typ>\<open>string\<close> stands for it, one \<^typ>\<open>char\<close> per
  code unit, so \<open>length\<close> is \<^verbatim>\<open>.length\<close> and \<open>take\<close> is \<^verbatim>\<open>.substring(0, n)\<close>. Strings with
  code units above 255 are outside the model.
\<close>

definition CRLF :: string where
  "CRLF = [CHR 0x0D, CHR 0x0A]"

text \<open>\<^verbatim>\<open>s.includes(d)\<close>: \<open>d\<close> occurs in \<open>s\<close> as a contiguous run of code units.\<close>

fun str_includes :: "string \<Rightarrow> string \<Rightarrow> bool" where
  "str_includes [] d = (d = [])"
| "str_includes (c # cs) d = (prefix d (c # cs) \<or> str_includes cs d)"

text \<open>\<^verbatim>\<open>s.split(':')\<close>: the pieces between the separators; never the empty array.\<close>

fun split_on :: "char \<Rightarrow> string \<Rightarrow> string list" where
  "split_on sep [] = [[]]"
| "split_on sep (c # cs) =
     (if c = sep then [] # split_on sep cs
      else (case split_on sep cs of p # ps \<Rightarrow> (c # p) # ps | [] \<Rightarrow> [[c]]))"

text \<open>Template literals print a non-negative integer in decimal.\<close>

definition digit_char :: "nat \<Rightarrow> char" where
  "digit_char d = ''0123456789'' ! d"

fun decimal :: "nat \<Rightarrow> string" where
  "decimal n = (if n < 10 then [digit_char n] else decimal (n div 10) @ [digit_char (n mod 10)])"

declare decimal.simps [simp del]

subsection \<open>Objects\<close>

text \<open>
  An object literal, a headers object or a parsed JSON object is an association list with
  distinct keys, in the order in which the language enumerates own properties: keys that are
  array indices first, in ascending numeric order, then the other keys in the order of their
  creation. Assigning to an existing key keeps its position.
\<close>

type_synonym 'v obj = "(string \<times> 'v) list"

definition is_digit :: "char \<Rightarrow> bool" where
  "is_digit c = (48 \<le> (of_char c :: nat) \<and> (of_char c :: nat) \<le> 57)"

definition digit_val :: "char \<Rightarrow> int" where
  "digit_val c = of_char c - 48"

definition int_of_digits :: "string \<Rightarrow> int" where
  "int_of_digits ds = foldl (\<lambda>n c. 10 * n + digit_val c) 0 ds"

text \<open>A key is an array index when it is the canonical decimal form of an integer below \<open>2^32 - 1\<close>.\<close>

definition index_key :: "string \<Rightarrow> int option" where
  "index_key k =
     (if k \<noteq> [] \<and> list_all is_digit k \<and> (k = ''0'' \<or> hd k \<noteq> CHR ''0'') \<and> int_of_digits k < 4294967295
      then Some (int_of_digits k) else None)"

fun insert_index :: "int \<Rightarrow> string \<Rightarrow> 'v \<Rightarrow> 'v obj \<Rightarrow> 'v obj" where
  "insert_index i k v [] = [(k, v)]"
| "insert_index i k v ((k', v') # kvs) =
     (case index_key k' of
        Some j \<Rightarrow> if j < i then (k', v') # insert_index i k v kvs else (k, v) # (k', v') # kvs
      | None \<Rightarrow> (k, v) # (k', v') # kvs)"

text \<open>\<^verbatim>\<open>o[k] = v\<close> on a copy, as in \<^verbatim>\<open>{ ...o, k: v }\<close>.\<close>

definition obj_set :: "string \<Rightarrow> 'v \<Rightarrow> 'v obj \<Rightarrow> 'v obj" where
  "obj_set k v kvs =
     (if k \<in> fst ` set kvs then AList.update k v kvs
      else case index_key k of Some i \<Rightarrow> insert_index i k v kvs | None \<Rightarrow> kvs @ [(k, v)])"

text \<open>\<^verbatim>\<open>o[k]\<close> for an own property: \<open>None\<close> is \<^verbatim>\<open>undefined\<close>.\<close>

abbreviation obj_get :: "'v obj \<Rightarrow> string \<Rightarrow> 'v option" where
  "obj_get kvs k \<equiv> map_of kvs k"

text \<open>\<^verbatim>\<open>delete o[k]\<close> on a copy.\<close>

abbreviation obj_delete :: "string \<Rightarrow> 'v obj \<Rightarrow> 'v obj" where
  "obj_delete k kvs \<equiv> AList.delete k kvs"

section \<open>The pass-through proxy: configuration and endpoint registry\<close>

record config =
  PROXY_PORT :: nat
  LOCAL_SERVER_PORT :: nat
  ENABLE_REQUEST_LOGGING :: bool
  ENABLE_RESPONSE_LOGGING :: bool
  ENABLE_MODIFICATIONS :: bool
  FALLBACK_TO_LOCAL :: bool
  CONNECTION_TIMEOUT :: nat
  REQUEST_TIMEOUT :: nat

text \<open>The \<^verbatim>\<open>CONFIG\<close> literal of the source. The functions below take the configuration as an
  argument, so that the behaviour under the other settings of its flags can be stated.\<close>

definition CONFIG :: config where
  "CONFIG = \<lparr> PROXY_PORT = 8080, LOCAL_SERVER_PORT = 49767,
     ENABLE_REQUEST_LOGGING = True, ENABLE_RESPONSE_LOGGING = True,
     ENABLE_MODIFICATIONS = True, FALLBACK_TO_LOCAL = False,
     CONNECTION_TIMEOUT = 30000, REQUEST_TIMEOUT = 60000 \<rparr>"

definition INTERCEPT_DOMAINS :: "string list" where
  "INTERCEPT_DOMAINS =
     [''nba2k17-ws.2ksports.com'', ''nba2k17-services.2ksports.com'',
      ''api.2ksports.com'', ''services.2ksports.com'']"

record server_config =
  host :: string
  port :: nat
  protocol :: string

definition endpoint :: "string \<Rightarrow> server_config" where
  "endpoint h = \<lparr> host = h, port = 17217, protocol = ''https'' \<rparr>"

definition SERVER_ENDPOINTS :: "server_config obj" where
  "SERVER_ENDPOINTS =
     [(''nba2k17-ws.2ksports.com'', endpoint ''nba2k17-ws.2ksports.com''),
      (''nba2k17-services.2ksports.com'', endpoint ''nba2k17-services.2ksports.com''),
      (''api.2ksports.com'', endpoint ''api.2ksports.com''),
      (''services.2ksports.com'', endpoint ''services.2ksports.com'')]"

text \<open>\<^verbatim>\<open>INTERCEPT_DOMAINS.some(domain => hostname.includes(domain))\<close>\<close>

definition intercepted :: "string \<Rightarrow> bool" where
  "intercepted hostname = list_ex (\<lambda>domain. str_includes hostname domain) INTERCEPT_DOMAINS"

text \<open>
  The three branches that \<^verbatim>\<open>handleProxyRequest\<close> takes on the hostname (lines 384-394 and
  421-424): the request is intercepted and \<^verbatim>\<open>SERVER_ENDPOINTS[hostname]\<close> is defined; it is
  intercepted and the lookup gives \<^verbatim>\<open>undefined\<close>, which is answered with status 502; it is
  forwarded as a normal request.
\<close>

datatype decision = INTERCEPT server_config | UNKNOWN_SERVER | PASSTHROUGH

definition classify :: "string \<Rightarrow> decision" where
  "classify hostname =
     (if intercepted hostname then
        (case obj_get SERVER_ENDPOINTS hostname of
           None \<Rightarrow> UNKNOWN_SERVER
         | Some serverConfig \<Rightarrow> INTERCEPT serverConfig)
      else PASSTHROUGH)"

text \<open>The rule that a first-match-wins classifier would select: the first registered domain
  that the hostname contains.\<close>

definition first_matching_rule :: "string \<Rightarrow> string option" where
  "first_matching_rule hostname = find (\<lambda>domain. str_includes hostname domain) INTERCEPT_DOMAINS"

section \<open>HTTP messages, the runtime and the events of a request\<close>

type_synonym headers = "string obj"

text \<open>A response as the program hands it to the client's response object: the status and
  headers given to \<^verbatim>\<open>writeHead\<close>, and the body given to \<^verbatim>\<open>end\<close> (a string, which the runtime
  writes in UTF-8) or piped into it (the bytes of the upstream response).\<close>

record response =
  statusCode :: nat
  resp_headers :: headers
  resp_body :: string

text \<open>The \<^verbatim>\<open>port\<close> of an options object is a number (a constant of the program) or the string
  that \<^verbatim>\<open>url.parse\<close> found.\<close>

datatype port_value = PortNumber nat | PortString string

record request_options =
  o_hostname :: "string option"
  o_port :: port_value
  o_path :: string
  o_method :: string
  o_headers :: headers

text \<open>One call of \<^verbatim>\<open>http.request\<close> or \<^verbatim>\<open>https.request\<close>, with the body given to \<^verbatim>\<open>write\<close> (a
  string) or piped to it (the bytes of the client's request).\<close>

record upstream_request =
  via_https :: bool
  options :: request_options
  sent_body :: string

text \<open>\<^verbatim>\<open>url.parse(req.url)\<close> is the runtime's; its result is an input of the model.\<close>

record parsed_url =
  url_hostname :: "string option"
  url_port :: "string option"
  url_path :: string

text \<open>The client's request stream delivers chunks of bytes and ends, or emits \<^verbatim>\<open>'error'\<close>
  after some chunks. A pipe carries the bytes of the chunks as they are.\<close>

datatype incoming = Complete "string list" | Aborted "string list" string

fun received :: "incoming \<Rightarrow> string" where
  "received (Complete chunks) = concat chunks"
| "received (Aborted chunks message) = concat chunks"

record client_request =
  req_url :: parsed_url
  req_method :: string
  req_headers :: headers
  req_stream :: incoming

text \<open>
  What an upstream call ends with. A call with a \<^verbatim>\<open>timeout\<close> option answers, emits \<^verbatim>\<open>'error'\<close>,
  or emits \<^verbatim>\<open>'timeout'\<close>; the handler of the latter calls \<^verbatim>\<open>proxyReq.destroy()\<close>, and a request
  destroyed before its response emits \<^verbatim>\<open>'error'\<close> in turn (\<open>socket hang up\<close>): \<open>TimedOut message\<close>
  carries the message of that second event, delivered after the timeout handler has returned.
  A call without the option answers or emits \<^verbatim>\<open>'error'\<close>. The body of \<open>Responded\<close> is the list
  of the chunks of bytes that the \<^verbatim>\<open>'data'\<close> events deliver; the body of \<open>Answered\<close>, which is
  piped, is the bytes of the response.
\<close>

datatype upstream_outcome = Responded nat headers "string list" | Errored string | TimedOut string

datatype plain_outcome = Answered nat headers string | Failed string

text \<open>A value that \<^verbatim>\<open>JSON.parse\<close> can return. \<open>Finite m e\<close> is the number \<open>m * 10^e\<close>, kept exact;
  \<^verbatim>\<open>JSON.parse\<close> yields no \<^verbatim>\<open>NaN\<close>.\<close>

datatype jsnum = Finite int int | PlusInfinity | MinusInfinity

datatype jsval = JNull | JBool bool | JNum jsnum | JStr string | JArr "jsval list" | JObj "(string \<times> jsval) list"

text \<open>The built-ins the program calls on bodies: \<^verbatim>\<open>chunk.toString()\<close>, which decodes the bytes
  of a chunk as UTF-8, \<^verbatim>\<open>JSON.parse\<close> and \<^verbatim>\<open>JSON.stringify\<close>. \<open>JSON_parse rt text = None\<close> stands
  for the \<^verbatim>\<open>SyntaxError\<close>. The program is modelled for every such triple of functions.\<close>

record runtime =
  Buffer_toString :: "string \<Rightarrow> string"
  JSON_parse :: "string \<Rightarrow> jsval option"
  JSON_stringify :: "jsval \<Rightarrow> string"

text \<open>The loop \<^verbatim>\<open>body += chunk.toString()\<close> over the \<^verbatim>\<open>'data'\<close> events, from the empty string.\<close>

definition collect :: "runtime \<Rightarrow> string list \<Rightarrow> string" where
  "collect rt chunks = foldl (\<lambda>body chunk. body @ Buffer_toString rt chunk) [] chunks"

text \<open>What the process reads during one request: the clock and the ends of its upstream calls.\<close>

record env =
  clock :: nat
  now_iso :: string
  real_server :: upstream_outcome
  local_server :: plain_outcome
  origin_server :: plain_outcome

text \<open>
  What one request has caused: the upstream calls in the order of their issue, the response
  written to the client, and whether an exception left a handler (the \<^verbatim>\<open>uncaughtException\<close>
  handler then exits the process with status 1). Log lines are not part of the outcome.
\<close>

record outcome =
  issued :: "upstream_request list"
  client :: "response option"
  crashed :: bool

definition idle :: outcome where
  "idle = \<lparr> issued = [], client = None, crashed = False \<rparr>"

definition request :: "upstream_request \<Rightarrow> outcome \<Rightarrow> outcome" where
  "request r out = out \<lparr> issued := issued out @ [r] \<rparr>"

text \<open>\<^verbatim>\<open>res.writeHead(status, headers)\<close> followed by \<^verbatim>\<open>res.end(body)\<close> or by a pipe into \<^verbatim>\<open>res\<close>.
  \<^verbatim>\<open>writeHead\<close> throws when the headers of this response have been sent already.\<close>

definition respond :: "nat \<Rightarrow> headers \<Rightarrow> string \<Rightarrow> outcome \<Rightarrow> outcome" where
  "respond status hs body out =
     (case client out of
        None \<Rightarrow> out \<lparr> client := Some \<lparr> statusCode = status, resp_headers = hs, resp_body = body \<rparr> \<rparr>
      | Some _ \<Rightarrow> out \<lparr> crashed := True \<rparr>)"

definition text_plain :: headers where
  "text_plain = [(''Content-Type'', ''text/plain'')]"

section \<open>Conversions of the language\<close>

text \<open>White space that \<^verbatim>\<open>parseInt\<close> and the conversion of a string to a number skip.\<close>

definition is_space :: "char \<Rightarrow> bool" where
  "is_space c = ((of_char c :: nat) \<in> {9, 10, 11, 12, 13, 32, 160})"

definition radix_digit :: "int \<Rightarrow> char \<Rightarrow> int option" where
  "radix_digit radix c =
     (let n = (of_char c :: int);
          d = (if 48 \<le> n \<and> n \<le> 57 then n - 48
               else if 97 \<le> n \<and> n \<le> 122 then n - 87
               else if 65 \<le> n \<and> n \<le> 90 then n - 55
               else 36)
      in if d < radix then Some d else None)"

definition radix_value :: "int \<Rightarrow> string \<Rightarrow> int" where
  "radix_value radix ds = foldl (\<lambda>n c. radix * n + (case radix_digit radix c of Some d \<Rightarrow> d | None \<Rightarrow> 0)) 0 ds"

text \<open>The conversions that \<^verbatim>\<open>sanitizeBody\<close> applies to a value that is not a string: to a
  boolean in \<^verbatim>\<open>!body\<close>, to a string in \<^verbatim>\<open>JSON.parse(body)\<close>, to a number in \<^verbatim>\<open>body.length > 200\<close>.\<close>

datatype js_error = TypeError

fun truthy :: "jsval \<Rightarrow> bool" where
  "truthy JNull = False"
| "truthy (JBool b) = b"
| "truthy (JNum (Finite m e)) = (m \<noteq> 0)"
| "truthy (JNum PlusInfinity) = True"
| "truthy (JNum MinusInfinity) = True"
| "truthy (JStr s) = (s \<noteq> [])"
| "truthy (JArr xs) = True"
| "truthy (JObj kvs) = True"

fun num_gt :: "jsnum \<Rightarrow> int \<Rightarrow> bool" where
  "num_gt (Finite m e) b = (if 0 \<le> e then b < m * 10 ^ nat e else b * 10 ^ nat (- e) < m)"
| "num_gt PlusInfinity b = True"
| "num_gt MinusInfinity b = False"

fun negate :: "jsnum \<Rightarrow> jsnum" where
  "negate (Finite m e) = Finite (- m) e"
| "negate PlusInfinity = MinusInfinity"
| "negate MinusInfinity = PlusInfinity"

text \<open>The digits of a positive integer without its trailing zeros, and their number.\<close>

definition strip_zeros :: "string \<Rightarrow> string \<times> nat" where
  "strip_zeros ds =
     (let r = dropWhile (\<lambda>c. c = CHR ''0'') (rev ds) in (rev r, length ds - length r))"

text \<open>\<^verbatim>\<open>Number::toString\<close> in radix 10: \<open>k\<close> significant digits \<open>ds\<close>, the decimal point after
  the first \<open>n\<close> of them.\<close>

definition num_toString :: "jsnum \<Rightarrow> string" where
  "num_toString x =
     (case x of
        PlusInfinity \<Rightarrow> ''Infinity''
      | MinusInfinity \<Rightarrow> ''-Infinity''
      | Finite m e \<Rightarrow>
          if m = 0 then ''0''
          else
            (let (ds, z) = strip_zeros (decimal (nat \<bar>m\<bar>));
                 k = int (length ds);
                 n = k + e + int z;
                 ex = (if 0 \<le> n - 1 then ''+'' else ''-'') @ decimal (nat \<bar>n - 1\<bar>);
                 digits =
                   (if k \<le> n \<and> n \<le> 21 then ds @ replicate (nat (n - k)) CHR ''0''
                    else if 0 < n \<and> n \<le> 21 then take (nat n) ds @ ''.'' @ drop (nat n) ds
                    else if - 6 < n \<and> n \<le> 0 then ''0.'' @ replicate (nat (- n)) CHR ''0'' @ ds
                    else if k = 1 then ds @ ''e'' @ ex
                    else take 1 ds @ ''.'' @ drop 1 ds @ ''e'' @ ex)
             in (if m < 0 then ''-'' else []) @ digits))"

fun join :: "string \<Rightarrow> string list \<Rightarrow> string" where
  "join sep [] = []"
| "join sep [x] = x"
| "join sep (x # y # ys) = x @ sep @ join sep (y # ys)"

fun all_some :: "'a option list \<Rightarrow> 'a list option" where
  "all_some [] = Some []"
| "all_some (None # xs) = None"
| "all_some (Some x # xs) = map_option ((#) x) (all_some xs)"

text \<open>
  \<^verbatim>\<open>ToString\<close> of a parsed value; \<open>None\<close> is the \<^verbatim>\<open>TypeError\<close> of an object whose own property
  \<^verbatim>\<open>toString\<close> hides the inherited method (no parsed value is callable). An array joins its
  elements with commas, \<^verbatim>\<open>null\<close> elements as the empty string.
\<close>

fun js_toString :: "jsval \<Rightarrow> string option" where
  "js_toString JNull = Some ''null''"
| "js_toString (JBool b) = Some (if b then ''true'' else ''false'')"
| "js_toString (JNum x) = Some (num_toString x)"
| "js_toString (JStr s) = Some s"
| "js_toString (JArr xs) =
     map_option (join '','') (all_some (map (\<lambda>x. if x = JNull then Some [] else js_toString x) xs))"
| "js_toString (JObj kvs) = (if ''toString'' \<in> fst ` set kvs then None else Some ''[object Object]'')"

definition trim :: "string \<Rightarrow> string" where
  "trim s = rev (dropWhile is_space (rev (dropWhile is_space s)))"

text \<open>An exponent part that ends the literal; the empty rest is the exponent 0.\<close>

definition scan_exponent :: "string \<Rightarrow> int option" where
  "scan_exponent r =
     (case r of
        [] \<Rightarrow> Some 0
      | c # r' \<Rightarrow>
          if c = CHR ''e'' \<or> c = CHR ''E'' then
            (let ds = (if take 1 r' = ''-'' \<or> take 1 r' = ''+'' then drop 1 r' else r')
             in if ds \<noteq> [] \<and> list_all is_digit ds
                then Some ((if take 1 r' = ''-'' then - 1 else 1) * int_of_digits ds)
                else None)
          else None)"

definition unsigned_decimal :: "string \<Rightarrow> jsnum option" where
  "unsigned_decimal s =
     (if s = ''Infinity'' then Some PlusInfinity
      else
        (let ip = takeWhile is_digit s;
             r1 = dropWhile is_digit s;
             dot = (take 1 r1 = ''.'');
             fp = (if dot then takeWhile is_digit (drop 1 r1) else []);
             r2 = (if dot then dropWhile is_digit (drop 1 r1) else r1)
         in if ip = [] \<and> fp = [] then None
            else (case scan_exponent r2 of
                    None \<Rightarrow> None
                  | Some x \<Rightarrow> Some (Finite (int_of_digits (ip @ fp)) (x - int (length fp))))))"

definition radix_literal :: "int \<Rightarrow> string \<Rightarrow> jsnum option" where
  "radix_literal radix ds =
     (if ds \<noteq> [] \<and> list_all (\<lambda>c. radix_digit radix c \<noteq> None) ds
      then Some (Finite (radix_value radix ds) 0) else None)"

text \<open>The conversion of a string to a number; \<open>None\<close> is \<^verbatim>\<open>NaN\<close>.\<close>

definition string_to_number :: "string \<Rightarrow> jsnum option" where
  "string_to_number s =
     (let t = trim s
      in if t = [] then Some (Finite 0 0)
         else if take 2 t = ''0x'' \<or> take 2 t = ''0X'' then radix_literal 16 (drop 2 t)
         else if take 2 t = ''0o'' \<or> take 2 t = ''0O'' then radix_literal 8 (drop 2 t)
         else if take 2 t = ''0b'' \<or> take 2 t = ''0B'' then radix_literal 2 (drop 2 t)
         else if take 1 t = ''-'' then map_option negate (unsigned_decimal (drop 1 t))
         else if take 1 t = ''+'' then unsigned_decimal (drop 1 t)
         else unsigned_decimal t)"

definition string_gt :: "string \<Rightarrow> int \<Rightarrow> bool" where
  "string_gt s b = (case string_to_number s of None \<Rightarrow> False | Some x \<Rightarrow> num_gt x b)"

text \<open>\<^verbatim>\<open>v > b\<close> for a number \<open>b\<close>; \<open>None\<close> is the \<^verbatim>\<open>TypeError\<close> of the conversion.\<close>

fun js_gt :: "jsval \<Rightarrow> int \<Rightarrow> bool option" where
  "js_gt JNull b = Some (b < 0)"
| "js_gt (JBool t) b = Some (b < (if t then 1 else 0))"
| "js_gt (JNum x) b = Some (num_gt x b)"
| "js_gt (JStr s) b = Some (string_gt s b)"
| "js_gt (JArr xs) b = map_option (\<lambda>s. string_gt s b) (js_toString (JArr xs))"
| "js_gt (JObj kvs) b = map_option (\<lambda>s. string_gt s b) (js_toString (JObj kvs))"

section \<open>The pass-through proxy: request and response modification\<close>

text \<open>\<^verbatim>\<open>ProxyLogger.generateRequestId\<close>: the identifier and the incremented counter.\<close>

definition generateRequestId :: "nat \<Rightarrow> nat \<Rightarrow> string \<times> nat" where
  "generateRequestId requestCounter millis =
     (''REQ-'' @ decimal (requestCounter + 1) @ ''-'' @ decimal millis, requestCounter + 1)"

record modified_request =
  m_path :: string
  m_headers :: headers
  m_body :: string

text \<open>\<^verbatim>\<open>RequestModifier.modifyRequest\<close>; \<open>stamp\<close> is \<^verbatim>\<open>new Date().toISOString()\<close>.\<close>

definition modifyRequest :: "config \<Rightarrow> string \<Rightarrow> string \<Rightarrow> string \<Rightarrow> string \<Rightarrow> headers \<Rightarrow> string \<Rightarrow> modified_request" where
  "modifyRequest cfg stamp requestId method path headers body =
     (if \<not> ENABLE_MODIFICATIONS cfg then \<lparr> m_path = path, m_headers = headers, m_body = body \<rparr>
      else
        let modifiedHeaders = obj_set ''X-Proxy-Timestamp'' stamp (obj_set ''X-Proxy-Request-ID'' requestId headers)
        in \<lparr> m_path = path, m_headers = modifiedHeaders, m_body = body \<rparr>)"

text \<open>
  The \<^verbatim>\<open>try\<close> block of \<^verbatim>\<open>modifyResponse\<close> after the parse: \<^verbatim>\<open>bodyData.vc\<close> throws when the parsed
  value is \<^verbatim>\<open>null\<close>, and the log line \<^verbatim>\<open>`... ${bodyData.vc}`\<close> throws when the property is there and
  has no conversion to a string. \<open>reads_vc\<close> holds when neither happens.
\<close>

fun reads_vc :: "jsval \<Rightarrow> bool" where
  "reads_vc JNull = False"
| "reads_vc (JObj kvs) = (case obj_get kvs ''vc'' of None \<Rightarrow> True | Some v \<Rightarrow> js_toString v \<noteq> None)"
| "reads_vc bodyData = True"

text \<open>
  \<^verbatim>\<open>RequestModifier.modifyResponse\<close>. \<^verbatim>\<open>JSON.parse(body)\<close> throws on a text that is not JSON; every
  exception of the \<^verbatim>\<open>try\<close> block lands in the \<^verbatim>\<open>catch\<close>, which returns the body as it is.
\<close>

definition modifyResponse :: "config \<Rightarrow> runtime \<Rightarrow> string \<Rightarrow> nat \<Rightarrow> headers \<Rightarrow> string \<Rightarrow> response" where
  "modifyResponse cfg rt requestId status headers body =
     (if \<not> ENABLE_MODIFICATIONS cfg then \<lparr> statusCode = status, resp_headers = headers, resp_body = body \<rparr>
      else
        let modifiedHeaders = obj_set ''X-Proxy-Response-ID'' requestId headers
        in case JSON_parse rt body of
             None \<Rightarrow> \<lparr> statusCode = status, resp_headers = modifiedHeaders, resp_body = body \<rparr>
           | Some bodyData \<Rightarrow>
               if reads_vc bodyData
               then \<lparr> statusCode = status, resp_headers = modifiedHeaders,
                      resp_body = JSON_stringify rt bodyData \<rparr>
               else \<lparr> statusCode = status, resp_headers = modifiedHeaders, resp_body = body \<rparr>)"

section \<open>The pass-through proxy: forwarding\<close>

definition host_port :: "string \<Rightarrow> nat \<Rightarrow> string" where
  "host_port h p = h @ '':'' @ decimal p"

text \<open>\<^verbatim>\<open>forwardToLocalServer\<close>: one request to the local server, its response piped to the client.\<close>

definition local_options :: "config \<Rightarrow> string \<Rightarrow> string \<Rightarrow> headers \<Rightarrow> request_options" where
  "local_options cfg method path headers =
     \<lparr> o_hostname = Some ''127.0.0.1'', o_port = PortNumber (LOCAL_SERVER_PORT cfg),
       o_path = path, o_method = method,
       o_headers = obj_set ''host'' (host_port ''127.0.0.1'' (LOCAL_SERVER_PORT cfg)) headers \<rparr>"

definition forwardToLocalServer :: "config \<Rightarrow> env \<Rightarrow> string \<Rightarrow> string \<Rightarrow> headers \<Rightarrow> string \<Rightarrow> outcome \<Rightarrow> outcome" where
  "forwardToLocalServer cfg e method path headers body out =
     (let out1 = request \<lparr> via_https = False, options = local_options cfg method path headers, sent_body = body \<rparr> out
      in case local_server e of
           Answered status rhs rbody \<Rightarrow> respond status rhs rbody out1
         | Failed message \<Rightarrow> respond 502 text_plain (''Local Server Error: '' @ message) out1)"

text \<open>\<^verbatim>\<open>forwardToRealServer\<close>. The \<^verbatim>\<open>'error'\<close> listener is \<open>on_error\<close>; it runs for an \<^verbatim>\<open>'error'\<close>
  event and after the \<^verbatim>\<open>'timeout'\<close> listener has destroyed the request.\<close>

definition real_options :: "server_config \<Rightarrow> string \<Rightarrow> string \<Rightarrow> headers \<Rightarrow> request_options" where
  "real_options serverConfig method path headers =
     \<lparr> o_hostname = Some (host serverConfig), o_port = PortNumber (port serverConfig),
       o_path = path, o_method = method,
       o_headers = obj_set ''host'' (host_port (host serverConfig) (port serverConfig)) headers \<rparr>"

definition on_error :: "config \<Rightarrow> env \<Rightarrow> string \<Rightarrow> string \<Rightarrow> headers \<Rightarrow> string \<Rightarrow> string \<Rightarrow> outcome \<Rightarrow> outcome" where
  "on_error cfg e method path headers body message out =
     (if FALLBACK_TO_LOCAL cfg then forwardToLocalServer cfg e method path headers body out
      else respond 502 text_plain (''Bad Gateway: '' @ message) out)"

definition forwardToRealServer ::
  "config \<Rightarrow> runtime \<Rightarrow> env \<Rightarrow> string \<Rightarrow> string \<Rightarrow> server_config \<Rightarrow> string \<Rightarrow> headers \<Rightarrow> string \<Rightarrow> outcome \<Rightarrow> outcome" where
  "forwardToRealServer cfg rt e requestId method serverConfig path headers body out =
     (let out1 = request \<lparr> via_https = (protocol serverConfig = ''https''),
                          options = real_options serverConfig method path headers, sent_body = body \<rparr> out
      in case real_server e of
           Responded status rhs chunks \<Rightarrow>
             (let responseBody = collect rt chunks;
                  modified = modifyResponse cfg rt requestId status rhs responseBody
              in respond (statusCode modified) (resp_headers modified) (resp_body modified) out1)
         | Errored message \<Rightarrow> on_error cfg e method path headers body message out1
         | TimedOut message \<Rightarrow>
             on_error cfg e method path headers body message (respond 504 text_plain ''Gateway Timeout'' out1))"

text \<open>\<^verbatim>\<open>forwardNormalRequest\<close>: the request is piped to the host of its URL.\<close>

definition forwardNormalRequest :: "env \<Rightarrow> client_request \<Rightarrow> outcome \<Rightarrow> outcome" where
  "forwardNormalRequest e req out =
     (let targetUrl = req_url req;
          prt = (case url_port targetUrl of
                   None \<Rightarrow> PortNumber 80
                 | Some p \<Rightarrow> if p = [] then PortNumber 80 else PortString p);
          out1 = request \<lparr> via_https = False,
                   options = \<lparr> o_hostname = url_hostname targetUrl, o_port = prt,
                     o_path = url_path targetUrl, o_method = req_method req, o_headers = req_headers req \<rparr>,
                   sent_body = received (req_stream req) \<rparr> out
      in case origin_server e of
           Answered status rhs rbody \<Rightarrow> respond status rhs rbody out1
         | Failed message \<Rightarrow> respond 500 [] ''Forward Error'' out1)"

text \<open>\<^verbatim>\<open>targetUrl.hostname || req.headers.host\<close>: \<open>None\<close> is \<^verbatim>\<open>undefined\<close>.\<close>

definition request_hostname :: "client_request \<Rightarrow> string option" where
  "request_hostname req =
     (case url_hostname (req_url req) of
        Some h \<Rightarrow> if h \<noteq> [] then Some h else obj_get (req_headers req) ''host''
      | None \<Rightarrow> obj_get (req_headers req) ''host'')"

text \<open>
  \<^verbatim>\<open>handleProxyRequest\<close>, from the counter of the logger; it returns the new counter with the
  outcome. \<^verbatim>\<open>hostname.includes\<close> throws when neither the URL nor the headers name a host.
\<close>

definition handleProxyRequest :: "config \<Rightarrow> runtime \<Rightarrow> env \<Rightarrow> nat \<Rightarrow> client_request \<Rightarrow> outcome \<times> nat" where
  "handleProxyRequest cfg rt e requestCounter req =
     (let (requestId, counter') = generateRequestId requestCounter (clock e);
          targetUrl = req_url req
      in case request_hostname req of
           None \<Rightarrow> (idle \<lparr> crashed := True \<rparr>, counter')
         | Some hostname \<Rightarrow>
             (case classify hostname of
                UNKNOWN_SERVER \<Rightarrow> (respond 502 text_plain ''Bad Gateway: Unknown 2K server'' idle, counter')
              | INTERCEPT serverConfig \<Rightarrow>
                  (case req_stream req of
                     Complete chunks \<Rightarrow>
                       (let requestBody = collect rt chunks;
                            modified = modifyRequest cfg (now_iso e) requestId (req_method req)
                                         (url_path targetUrl) (req_headers req) requestBody
                        in (forwardToRealServer cfg rt e requestId (req_method req) serverConfig
                              (m_path modified) (m_headers modified) (m_body modified) idle, counter'))
                   | Aborted chunks message \<Rightarrow> (respond 500 [] ''Request Error'' idle, counter'))
              | PASSTHROUGH \<Rightarrow> (forwardNormalRequest e req idle, counter')))"

section \<open>The pass-through proxy: CONNECT tunnels\<close>

text \<open>
  \<^verbatim>\<open>parseInt(x)\<close> with no radix argument; \<open>None\<close> as argument is \<^verbatim>\<open>undefined\<close>, \<open>None\<close> as result
  is \<^verbatim>\<open>NaN\<close>. The result is exact (the program applies it to port numbers).
\<close>

definition parseInt :: "string option \<Rightarrow> int option" where
  "parseInt x =
     (case x of
        None \<Rightarrow> None
      | Some s \<Rightarrow>
          (let s1 = dropWhile is_space s;
               negative = (take 1 s1 = ''-'');
               s2 = (if take 1 s1 = ''-'' \<or> take 1 s1 = ''+'' then drop 1 s1 else s1);
               hex = (take 2 s2 = ''0x'' \<or> take 2 s2 = ''0X'');
               radix = (if hex then 16 else 10);
               s3 = (if hex then drop 2 s2 else s2);
               ds = takeWhile (\<lambda>c. radix_digit radix c \<noteq> None) s3
           in if ds = [] then None
              else Some ((if negative then - 1 else 1) * radix_value radix ds)))"

text \<open>\<^verbatim>\<open>parseInt(port) || 443\<close>\<close>

definition port_or_443 :: "string option \<Rightarrow> int" where
  "port_or_443 x = (case parseInt x of None \<Rightarrow> 443 | Some n \<Rightarrow> if n = 0 then 443 else n)"

text \<open>
  What a CONNECT handler does to its two sockets, in order. \<open>NetConnect\<close> is the call of
  \<^verbatim>\<open>net.connect\<close>; it throws for a port outside \<open>0..65535\<close>, and the exception leaves the
  handler (\<open>Uncaught\<close>). The connection attempt ends with the callback (\<open>Connected\<close>) or with
  an \<^verbatim>\<open>'error'\<close> event. \<open>EmitConnection\<close> hands the client socket to the TLS server.
\<close>

datatype effect =
    NetConnect int string
  | ClientWrite string
  | ClientEnd
  | ServerWrite string
  | PipeServerToClient
  | PipeClientToServer
  | EmitConnection
  | Uncaught

datatype net_outcome = Connected | ConnectError string

definition established :: string where
  "established = ''HTTP/1.1 200 Connection Established'' @ CRLF @ CRLF"

definition net_connect :: "int \<Rightarrow> string \<Rightarrow> net_outcome \<Rightarrow> effect list \<Rightarrow> effect list \<Rightarrow> effect list" where
  "net_connect prt hostname net on_connect on_failure =
     (if 0 \<le> prt \<and> prt < 65536
      then NetConnect prt hostname # (case net of Connected \<Rightarrow> on_connect | ConnectError message \<Rightarrow> on_failure)
      else [Uncaught])"

text \<open>\<^verbatim>\<open>const [hostname, port] = req.url.split(':')\<close>\<close>

definition url_host :: "string \<Rightarrow> string" where
  "url_host url = (case split_on CHR '':'' url of h # _ \<Rightarrow> h | [] \<Rightarrow> [])"

definition url_port_part :: "string \<Rightarrow> string option" where
  "url_port_part url = (case split_on CHR '':'' url of _ # p # _ \<Rightarrow> Some p | _ \<Rightarrow> None)"

text \<open>\<^verbatim>\<open>handleConnect\<close>; \<open>head\<close> is the first packet of the tunnelled stream, which arrived with
  the request and is no longer in the client socket.\<close>

definition handleConnect :: "nat \<Rightarrow> nat \<Rightarrow> string \<Rightarrow> string \<Rightarrow> net_outcome \<Rightarrow> effect list \<times> nat" where
  "handleConnect requestCounter millis url head net =
     (let (requestId, counter') = generateRequestId requestCounter millis;
          hostname = url_host url;
          targetPort = port_or_443 (url_port_part url)
      in if intercepted hostname then
           (let realPort = 17217
            in (net_connect realPort hostname net
                  [ClientWrite established, PipeServerToClient, PipeClientToServer]
                  [ClientWrite (''HTTP/1.1 502 Bad Gateway'' @ CRLF @ CRLF), ClientEnd], counter'))
         else
           (net_connect targetPort hostname net
              [ClientWrite established, ServerWrite head, PipeServerToClient, PipeClientToServer]
              [ClientEnd], counter'))"

text \<open>The bytes that reach the upstream socket when the client sends \<open>later\<close> after the
  request: what the handler writes, and what the pipe from the client carries.\<close>

fun to_server :: "string \<Rightarrow> effect list \<Rightarrow> string" where
  "to_server later [] = []"
| "to_server later (ServerWrite bytes # es) = bytes @ to_server later es"
| "to_server later (PipeClientToServer # es) = later @ to_server later es"
| "to_server later (e # es) = to_server later es"

text \<open>The bytes that the handler itself writes to the client socket.\<close>

fun to_client :: "effect list \<Rightarrow> string" where
  "to_client [] = []"
| "to_client (ClientWrite bytes # es) = bytes @ to_client es"
| "to_client (e # es) = to_client es"

section \<open>The decrypt-and-redirect proxy (mitm-proxy.js)\<close>

definition LOCAL_SERVER_HOST :: string where
  "LOCAL_SERVER_HOST = ''127.0.0.1''"

definition mitm_LOCAL_SERVER_PORT :: nat where
  "mitm_LOCAL_SERVER_PORT = 49767"

definition mitm_INTERCEPT_DOMAINS :: "string list" where
  "mitm_INTERCEPT_DOMAINS =
     [''nba2k17-ws.2ksports.com'', ''nba2k17-services.2ksports.com'',
      ''api.2ksports.com'', ''services.2ksports.com'', ''2ksports.com'']"

definition mitm_intercepted :: "string \<Rightarrow> bool" where
  "mitm_intercepted hostname = list_ex (\<lambda>domain. str_includes hostname domain) mitm_INTERCEPT_DOMAINS"

text \<open>\<^verbatim>\<open>sslOptions\<close>: the key and the certificate when both files could be read, \<^verbatim>\<open>null\<close> when
  \<^verbatim>\<open>readFileSync\<close> threw for one of them.\<close>

definition sslOptions :: "string option \<Rightarrow> string option \<Rightarrow> (string \<times> string) option" where
  "sslOptions key_file cert_file =
     (case key_file of
        None \<Rightarrow> None
      | Some key \<Rightarrow> (case cert_file of None \<Rightarrow> None | Some cert \<Rightarrow> Some (key, cert)))"

text \<open>The redirect to the local server, as the request handler and the handler of the TLS
  server both write it; they differ in the text of the error response.\<close>

definition mitm_local_options :: "string \<Rightarrow> string \<Rightarrow> headers \<Rightarrow> request_options" where
  "mitm_local_options method path headers =
     \<lparr> o_hostname = Some LOCAL_SERVER_HOST, o_port = PortNumber mitm_LOCAL_SERVER_PORT,
       o_path = path, o_method = method,
       o_headers = obj_set ''host'' (host_port LOCAL_SERVER_HOST mitm_LOCAL_SERVER_PORT) headers \<rparr>"

definition mitm_redirect :: "string \<Rightarrow> env \<Rightarrow> string \<Rightarrow> string \<Rightarrow> headers \<Rightarrow> string \<Rightarrow> outcome \<Rightarrow> outcome" where
  "mitm_redirect error_text e method path headers body out =
     (let out1 = request \<lparr> via_https = False, options = mitm_local_options method path headers,
                          sent_body = body \<rparr> out
      in case local_server e of
           Answered status rhs rbody \<Rightarrow> respond status rhs rbody out1
         | Failed message \<Rightarrow> respond 500 [] error_text out1)"

text \<open>The request handler given to \<^verbatim>\<open>http.createServer\<close>.\<close>

definition mitm_request :: "env \<Rightarrow> client_request \<Rightarrow> outcome" where
  "mitm_request e req =
     (case request_hostname req of
        None \<Rightarrow> idle \<lparr> crashed := True \<rparr>
      | Some hostname \<Rightarrow>
          if mitm_intercepted hostname
          then mitm_redirect ''Proxy Error'' e (req_method req) (url_path (req_url req))
                 (req_headers req) (received (req_stream req)) idle
          else forwardNormalRequest e req idle)"

text \<open>The handler of the TLS server that a CONNECT to an intercepted host creates; \<open>url\<close> is
  \<^verbatim>\<open>req.url\<close> of the decrypted request.\<close>

definition mitm_tls_request :: "env \<Rightarrow> string \<Rightarrow> string \<Rightarrow> headers \<Rightarrow> incoming \<Rightarrow> outcome" where
  "mitm_tls_request e method url headers stream =
     mitm_redirect ''HTTPS Proxy Error'' e method url headers (received stream) idle"

text \<open>The \<^verbatim>\<open>'connect'\<close> handler.\<close>

definition mitm_connect :: "(string \<times> string) option \<Rightarrow> string \<Rightarrow> string \<Rightarrow> net_outcome \<Rightarrow> effect list" where
  "mitm_connect ssl url head net =
     (let hostname = url_host url;
          prt = port_or_443 (url_port_part url)
      in if mitm_intercepted hostname then
           (case ssl of
              Some key_and_cert \<Rightarrow> [ClientWrite established, EmitConnection]
            | None \<Rightarrow>
                [ClientWrite (''HTTP/1.1 500 SSL Interception Not Available'' @ CRLF @ CRLF), ClientEnd])
         else
           net_connect prt hostname net
             [ClientWrite established, ServerWrite head, PipeServerToClient, PipeClientToServer]
             [ClientEnd])"

section \<open>The pass-through proxy: sanitization for the log\<close>

text \<open>\<^verbatim>\<open>ProxyLogger.sanitizeHeaders\<close>\<close>

definition sanitizeHeaders :: "'v obj \<Rightarrow> 'v obj" where
  "sanitizeHeaders headers =
     obj_delete ''x-session-token'' (obj_delete ''cookie'' (obj_delete ''authorization'' headers))"

text \<open>\<^verbatim>\<open>delete parsed.key\<close>: a \<^verbatim>\<open>TypeError\<close> (\<open>None\<close>) on \<^verbatim>\<open>null\<close>, no effect on a value without
  own property of that name.\<close>

fun delete_property :: "string \<Rightarrow> jsval \<Rightarrow> jsval option" where
  "delete_property k JNull = None"
| "delete_property k (JObj kvs) = Some (JObj (obj_delete k kvs))"
| "delete_property k v = Some v"

text \<open>The \<^verbatim>\<open>try\<close> block of \<^verbatim>\<open>sanitizeBody\<close>; \<open>None\<close> when it throws.\<close>

definition sanitize_try :: "runtime \<Rightarrow> jsval \<Rightarrow> jsval option" where
  "sanitize_try rt body =
     (case js_toString body of
        None \<Rightarrow> None
      | Some text \<Rightarrow>
          (case JSON_parse rt text of
             None \<Rightarrow> None
           | Some parsed \<Rightarrow>
               Option.bind (delete_property ''password'' parsed)
                 (\<lambda>p1. Option.bind (delete_property ''token'' p1) (delete_property ''sessionToken''))))"

text \<open>The \<^verbatim>\<open>catch\<close> block: \<^verbatim>\<open>body.length > 200 ? body.substring(0, 200) + '...' : body\<close>. Only a
  string has \<^verbatim>\<open>substring\<close>; an exception here leaves \<^verbatim>\<open>sanitizeBody\<close>.\<close>

fun sanitize_catch :: "jsval \<Rightarrow> js_error + jsval" where
  "sanitize_catch (JStr s) = Inr (if 200 < length s then JStr (take 200 s @ ''...'') else JStr s)"
| "sanitize_catch (JArr xs) = (if 200 < length xs then Inl TypeError else Inr (JArr xs))"
| "sanitize_catch (JObj kvs) =
     (case obj_get kvs ''length'' of
        None \<Rightarrow> Inr (JObj kvs)
      | Some v \<Rightarrow>
          (case js_gt v 200 of
             None \<Rightarrow> Inl TypeError
           | Some exceeds \<Rightarrow> if exceeds then Inl TypeError else Inr (JObj kvs)))"
| "sanitize_catch JNull = Inl TypeError"
| "sanitize_catch v = Inr v"

text \<open>\<^verbatim>\<open>ProxyLogger.sanitizeBody\<close>. The program calls it with the body string; the function is
  defined on every value, as the language has it.\<close>

definition sanitizeBody :: "runtime \<Rightarrow> jsval \<Rightarrow> js_error + jsval" where
  "sanitizeBody rt body =
     (if \<not> truthy body then Inr JNull
      else case sanitize_try rt body of
             Some parsed \<Rightarrow> Inr parsed
           | None \<Rightarrow> sanitize_catch body)"

text \<open>Sanitization applied to the result of a sanitization.\<close>

definition sanitizeBody_twice :: "runtime \<Rightarrow> jsval \<Rightarrow> js_error + jsval" where
  "sanitizeBody_twice rt body =
     (case sanitizeBody rt body of Inl err \<Rightarrow> Inl err | Inr once \<Rightarrow> sanitizeBody rt once)"

section \<open>A model of the two JSON built-ins\<close>

text \<open>
  The functions above are stated for every pair of built-ins. To evaluate them at concrete
  bodies, \<open>json_parse\<close> and \<open>json_stringify\<close> follow the JSON grammar and the serialization
  rules of the language on texts whose code units, also those written as \<^verbatim>\<open>\u\<close> escapes, are
  below 256; numbers outside the range of a double become an infinity or zero, numbers inside
  it are kept exact.
\<close>

definition json_ws :: "char \<Rightarrow> bool" where
  "json_ws c = ((of_char c :: nat) \<in> {9, 10, 13, 32})"

definition skip_ws :: "string \<Rightarrow> string" where
  "skip_ws s = dropWhile json_ws s"

definition is_hex :: "char \<Rightarrow> bool" where
  "is_hex c = (radix_digit 16 c \<noteq> None)"

text \<open>The character that a two-character escape denotes.\<close>

definition escape_char :: "char \<Rightarrow> char option" where
  "escape_char e =
     (if e = CHR 0x22 then Some (CHR 0x22)
      else if e = CHR 0x5C then Some (CHR 0x5C)
      else if e = CHR ''/'' then Some (CHR ''/'')
      else if e = CHR ''b'' then Some (CHR 0x08)
      else if e = CHR ''f'' then Some (CHR 0x0C)
      else if e = CHR ''n'' then Some (CHR 0x0A)
      else if e = CHR ''r'' then Some (CHR 0x0D)
      else if e = CHR ''t'' then Some (CHR 0x09)
      else None)"

text \<open>A string literal after its opening quote: the string and the rest of the text. The first
  argument bounds the number of steps; the length of the text is enough.\<close>

fun json_string :: "nat \<Rightarrow> string \<Rightarrow> (string \<times> string) option" where
  "json_string 0 s = None"
| "json_string (Suc n) s =
     (case s of
        [] \<Rightarrow> None
      | c # cs \<Rightarrow>
          if c = CHR 0x22 then Some ([], cs)
          else if c = CHR 0x5C then
            (case cs of
               [] \<Rightarrow> None
             | e # r \<Rightarrow>
                 if e = CHR ''u'' then
                   (if 4 \<le> length r \<and> list_all is_hex (take 4 r)
                    then map_option (\<lambda>(t, rest). (char_of (radix_value 16 (take 4 r)) # t, rest))
                           (json_string n (drop 4 r))
                    else None)
                 else
                   (case escape_char e of
                      None \<Rightarrow> None
                    | Some x \<Rightarrow> map_option (\<lambda>(t, rest). (x # t, rest)) (json_string n r)))
          else if (of_char c :: nat) < 32 then None
          else map_option (\<lambda>(t, rest). (c # t, rest)) (json_string n cs))"

text \<open>
  The range of a double: a number of magnitude \<open>2^1024 - 2^970\<close> or more rounds to an infinity,
  a number of magnitude \<open>2^-1075\<close> or less rounds to zero. Rounding inside the range is not
  modelled: a number that a double cannot hold there keeps its exact value.
\<close>

definition double_overflow :: int where
  "double_overflow = 179769313486231580793728971405303415079934132710037826936173778980444968292764750946649017977587207096330286416692887910946555547851940402630657488671505820681908902000708383676273854845817711531764475730270069855571366959622842914819860834936475292719074168444365510704342711559699508093042880177904174497792"

definition double_underflow_inverse :: int where
  "double_underflow_inverse = 404804506614621236704990693437834614099113299528284236713802716054860679135990693783920767402874248990374155728633623822779617474771586953734026799881477019843034848553132722728933815484186432682479535356945490137124014966849385397236206711298319112681620113024717539104666829230461005064372655017292012526615415482186989568"

definition to_double :: "int \<Rightarrow> int \<Rightarrow> jsnum" where
  "to_double m e =
     (if m = 0 then Finite 0 0
      else if (if 0 \<le> e then double_overflow \<le> \<bar>m\<bar> * 10 ^ nat e
               else double_overflow * 10 ^ nat (- e) \<le> \<bar>m\<bar>)
        then (if 0 < m then PlusInfinity else MinusInfinity)
      else if e < 0 \<and> \<bar>m\<bar> * double_underflow_inverse \<le> 10 ^ nat (- e) then Finite 0 0
      else Finite m e)"

text \<open>A number at the start of the text, and the rest of the text.\<close>

definition json_number :: "string \<Rightarrow> (jsnum \<times> string) option" where
  "json_number s =
     (let negative = (take 1 s = ''-'');
          s1 = (if negative then drop 1 s else s);
          ip = (if take 1 s1 = ''0'' then ''0'' else takeWhile is_digit s1);
          r1 = drop (length ip) s1;
          fp = (if take 1 r1 = ''.'' then takeWhile is_digit (drop 1 r1) else []);
          r2 = (if fp = [] then r1 else drop (1 + length fp) r1);
          e1 = (if take 1 r2 = ''e'' \<or> take 1 r2 = ''E'' then drop 1 r2 else []);
          e2 = (if take 1 e1 = ''-'' \<or> take 1 e1 = ''+'' then drop 1 e1 else e1);
          xp = takeWhile is_digit e2;
          x = (if take 1 e1 = ''-'' then - 1 else 1) * int_of_digits xp;
          r3 = (if xp = [] then r2 else dropWhile is_digit e2)
      in if ip = [] then None
         else Some (to_double ((if negative then - 1 else 1) * int_of_digits (ip @ fp))
                      (x - int (length fp)), r3))"

text \<open>A value, the elements of an array after \<^verbatim>\<open>[\<close> or a comma, and the members of an object
  after \<^verbatim>\<open>{\<close> or a comma. The first argument bounds the depth of the calls.\<close>

fun json_value :: "nat \<Rightarrow> string \<Rightarrow> (jsval \<times> string) option"
  and json_elements :: "nat \<Rightarrow> string \<Rightarrow> jsval list \<Rightarrow> (jsval \<times> string) option"
  and json_members :: "nat \<Rightarrow> string \<Rightarrow> jsval obj \<Rightarrow> (jsval \<times> string) option" where
  "json_value 0 s = None"
| "json_value (Suc n) s =
     (case skip_ws s of
        [] \<Rightarrow> None
      | c # cs \<Rightarrow>
          if c = CHR ''{'' then
            (if take 1 (skip_ws cs) = ''}'' then Some (JObj [], drop 1 (skip_ws cs))
             else json_members n cs [])
          else if c = CHR ''['' then
            (if take 1 (skip_ws cs) = '']'' then Some (JArr [], drop 1 (skip_ws cs))
             else json_elements n cs [])
          else if c = CHR 0x22 then map_option (\<lambda>(t, rest). (JStr t, rest)) (json_string (Suc (length cs)) cs)
          else if take 4 (c # cs) = ''true'' then Some (JBool True, drop 3 cs)
          else if take 5 (c # cs) = ''false'' then Some (JBool False, drop 4 cs)
          else if take 4 (c # cs) = ''null'' then Some (JNull, drop 3 cs)
          else map_option (\<lambda>(x, rest). (JNum x, rest)) (json_number (c # cs)))"
| "json_elements 0 s acc = None"
| "json_elements (Suc n) s acc =
     (case json_value n s of
        None \<Rightarrow> None
      | Some (v, r) \<Rightarrow>
          (case skip_ws r of
             [] \<Rightarrow> None
           | c # r' \<Rightarrow>
               if c = CHR '','' then json_elements n r' (acc @ [v])
               else if c = CHR '']'' then Some (JArr (acc @ [v]), r')
               else None))"
| "json_members 0 s acc = None"
| "json_members (Suc n) s acc =
     (case skip_ws s of
        [] \<Rightarrow> None
      | q # r \<Rightarrow>
          if q \<noteq> CHR 0x22 then None
          else
            (case json_string (Suc (length r)) r of
               None \<Rightarrow> None
             | Some (k, r1) \<Rightarrow>
                 (case skip_ws r1 of
                    [] \<Rightarrow> None
                  | c # r2 \<Rightarrow>
                      if c \<noteq> CHR '':'' then None
                      else
                        (case json_value n r2 of
                           None \<Rightarrow> None
                         | Some (v, r3) \<Rightarrow>
                             (case skip_ws r3 of
                                [] \<Rightarrow> None
                              | d # r4 \<Rightarrow>
                                  if d = CHR '','' then json_members n r4 (obj_set k v acc)
                                  else if d = CHR ''}'' then Some (JObj (obj_set k v acc), r4)
                                  else None)))))"

text \<open>\<^verbatim>\<open>JSON.parse(text)\<close>: one value, white space around it, nothing else.\<close>

definition json_parse :: "string \<Rightarrow> jsval option" where
  "json_parse text =
     (case json_value (Suc (Suc (length text + length text))) text of
        None \<Rightarrow> None
      | Some (v, rest) \<Rightarrow> if skip_ws rest = [] then Some v else None)"

definition hex_digit :: "nat \<Rightarrow> char" where
  "hex_digit d = ''0123456789abcdef'' ! d"

definition quote_char :: "char \<Rightarrow> string" where
  "quote_char c =
     (if c = CHR 0x22 then [CHR 0x5C, CHR 0x22]
      else if c = CHR 0x5C then [CHR 0x5C, CHR 0x5C]
      else if c = CHR 0x08 then [CHR 0x5C, CHR ''b'']
      else if c = CHR 0x0C then [CHR 0x5C, CHR ''f'']
      else if c = CHR 0x0A then [CHR 0x5C, CHR ''n'']
      else if c = CHR 0x0D then [CHR 0x5C, CHR ''r'']
      else if c = CHR 0x09 then [CHR 0x5C, CHR ''t'']
      else if (of_char c :: nat) < 32
        then [CHR 0x5C, CHR ''u'', CHR ''0'', CHR ''0'', hex_digit (of_char c div 16), hex_digit (of_char c mod 16)]
      else [c])"

definition quote :: "string \<Rightarrow> string" where
  "quote s = [CHR 0x22] @ concat (map quote_char s) @ [CHR 0x22]"

text \<open>\<^verbatim>\<open>JSON.stringify(value)\<close> of a parsed value, without indentation.\<close>

fun json_stringify :: "jsval \<Rightarrow> string" where
  "json_stringify JNull = ''null''"
| "json_stringify (JBool b) = (if b then ''true'' else ''false'')"
| "json_stringify (JNum (Finite m e)) = num_toString (Finite m e)"
| "json_stringify (JNum PlusInfinity) = ''null''"
| "json_stringify (JNum MinusInfinity) = ''null''"
| "json_stringify (JStr s) = quote s"
| "json_stringify (JArr xs) = ''['' @ join '','' (map json_stringify xs) @ '']''"
| "json_stringify (JObj kvs) =
     ''{'' @ join '','' (map (\<lambda>kv. quote (fst kv) @ '':'' @ json_stringify (snd kv)) kvs) @ ''}''"

text \<open>
  \<^verbatim>\<open>chunk.toString()\<close>, the UTF-8 decoding of a chunk: a byte below 128 is its own code unit, and
  the two-byte sequences that start with \<open>0xC2\<close> or \<open>0xC3\<close> are the code units from 128 to 255.
  Every other byte decodes to a code unit above 255 or to the replacement character, which are
  outside the model; \<open>utf8_toString\<close> leaves such a byte as it is.
\<close>

fun utf8_toString :: "string \<Rightarrow> string" where
  "utf8_toString [] = []"
| "utf8_toString [b] = [b]"
| "utf8_toString (b # c # bs) =
     (if ((of_char b :: nat) = 194 \<or> (of_char b :: nat) = 195) \<and>
         128 \<le> (of_char c :: nat) \<and> (of_char c :: nat) < 192
      then char_of (((of_char b :: nat) - 192) * 64 + ((of_char c :: nat) - 128)) # utf8_toString bs
      else b # utf8_toString (c # bs))"

definition node :: runtime where
  "node = \<lparr> Buffer_toString = utf8_toString, JSON_parse = json_parse, JSON_stringify = json_stringify \<rparr>"

section \<open>Observations on outcomes\<close>


text \<open>
  The end-to-end example of the specification, on a host of the registry: \<^verbatim>\<open>GET /user/profile\<close>
  for \<open>api.2ksports.com\<close>, which the real server answers with \<^verbatim>\<open>200 {"vc":500}\<close>; the local
  server and the origin refuse connections.
\<close>

definition example_request :: client_request where
  "example_request =
     \<lparr> req_url = \<lparr> url_hostname = Some ''api.2ksports.com'', url_port = None,
                     url_path = ''/user/profile'' \<rparr>,
       req_method = ''GET'', req_headers = [(''host'', ''api.2ksports.com'')],
       req_stream = Complete [] \<rparr>"

definition example_env :: env where
  \<open>example_env =
     \<lparr> clock = 0, now_iso = ''2026-01-01T00:00:00.000Z'',
       real_server = Responded 200 [(''content-type'', ''application/json'')] [''{"vc":500}''],
       local_server = Failed ''connect ECONNREFUSED'',
       origin_server = Failed ''connect ECONNREFUSED'' \<rparr>\<close>

section \<open>Properties: evaluation rules\<close>

lemma decimal_numeral [simp]:
  "decimal (numeral k) =
     (if numeral k < (10::nat) then [digit_char (numeral k)]
      else decimal (numeral k div 10) @ [digit_char (numeral k mod 10)])"
  by (rule decimal.simps)

lemma decimal_0 [simp]: "decimal 0 = ''0''"
  by (simp add: decimal.simps digit_char_def)

lemma decimal_1 [simp]: "decimal (Suc 0) = ''1''"
  by (simp add: decimal.simps digit_char_def)

lemma double_overflow_value: "double_overflow = 2 ^ 1024 - 2 ^ 970"
  by (simp add: double_overflow_def)

lemma double_underflow_value: "double_underflow_inverse = 2 ^ 1075"
  by (simp add: double_underflow_inverse_def)

section \<open>Objects\<close>

lemma map_of_insert_index:
  "k \<notin> fst ` set kvs \<Longrightarrow> map_of (insert_index i k v kvs) = (map_of kvs)(k \<mapsto> v)"
  by (induction kvs) (auto split: option.splits)

lemma map_of_snoc:
  assumes "k \<notin> fst ` set kvs"
  shows "map_of (kvs @ [(k, v)]) = (map_of kvs)(k \<mapsto> v)"
proof -
  from assms have "map_of kvs k = None"
    by (simp add: map_of_eq_None_iff)
  then show ?thesis
    by (intro ext) (simp add: map_add_def split: option.splits)
qed

lemma map_of_obj_set: "map_of (obj_set k v kvs) = (map_of kvs)(k \<mapsto> v)"
proof (cases "k \<in> fst ` set kvs")
  case True
  then show ?thesis
    by (simp add: obj_set_def update_conv')
next
  case False
  then show ?thesis
    by (cases "index_key k") (simp_all add: obj_set_def map_of_insert_index map_of_snoc del: map_of_append)
qed







section \<open>Classification\<close>

lemma registered_cases:
  "h \<in> set INTERCEPT_DOMAINS \<Longrightarrow>
     h = ''nba2k17-ws.2ksports.com'' \<or> h = ''nba2k17-services.2ksports.com'' \<or>
     h = ''api.2ksports.com'' \<or> h = ''services.2ksports.com''"
  unfolding INTERCEPT_DOMAINS_def by simp

lemma own_rule_first:
  assumes "h \<in> set INTERCEPT_DOMAINS"
  shows "first_matching_rule h = Some h"
proof -
  have 1: "first_matching_rule ''nba2k17-ws.2ksports.com'' = Some ''nba2k17-ws.2ksports.com''"
    by (simp add: first_matching_rule_def INTERCEPT_DOMAINS_def)
  have 2: "first_matching_rule ''nba2k17-services.2ksports.com'' = Some ''nba2k17-services.2ksports.com''"
    by (simp add: first_matching_rule_def INTERCEPT_DOMAINS_def)
  have 3: "first_matching_rule ''api.2ksports.com'' = Some ''api.2ksports.com''"
    by (simp add: first_matching_rule_def INTERCEPT_DOMAINS_def)
  have 4: "first_matching_rule ''services.2ksports.com'' = Some ''services.2ksports.com''"
    by (simp add: first_matching_rule_def INTERCEPT_DOMAINS_def)
  from registered_cases [OF assms] show ?thesis
    by (elim disjE) (simp_all only: 1 2 3 4)
qed

lemma lookup_SERVER_ENDPOINTS:
  "obj_get SERVER_ENDPOINTS h = (if h \<in> set INTERCEPT_DOMAINS then Some (endpoint h) else None)"
  by (simp add: SERVER_ENDPOINTS_def INTERCEPT_DOMAINS_def)

lemma unknown_server_response:
  assumes "classify hostname = UNKNOWN_SERVER" and "request_hostname req = Some hostname"
  shows "fst (handleProxyRequest cfg rt e n req) = respond 502 text_plain ''Bad Gateway: Unknown 2K server'' idle"
  using assms by (simp add: handleProxyRequest_def Let_def split: prod.splits)

text \<open>
  C1 (amended). A hostname that contains an intercept domain is classified INTERCEPT only when
  it is itself a registered domain; its target is then its own entry of the registry, which is
  the entry of the first registered rule that matches it. A hostname that merely contains a
  registered domain is answered with status 502 and nothing is forwarded.
\<close>

theorem C1_classify_intercepted:
  assumes "intercepted hostname"
  shows "(hostname \<in> set INTERCEPT_DOMAINS \<longrightarrow>
            first_matching_rule hostname = Some hostname \<and>
            classify hostname = INTERCEPT (endpoint hostname)) \<and>
         (hostname \<notin> set INTERCEPT_DOMAINS \<longrightarrow>
            classify hostname = UNKNOWN_SERVER \<and>
            (\<forall>cfg rt e n req. request_hostname req = Some hostname \<longrightarrow>
               fst (handleProxyRequest cfg rt e n req) =
                 respond 502 text_plain ''Bad Gateway: Unknown 2K server'' idle))"
proof (intro conjI impI)
  assume "hostname \<in> set INTERCEPT_DOMAINS"
  then show "first_matching_rule hostname = Some hostname"
    by (rule own_rule_first)
next
  assume "hostname \<in> set INTERCEPT_DOMAINS"
  with assms show "classify hostname = INTERCEPT (endpoint hostname)"
    by (simp add: classify_def lookup_SERVER_ENDPOINTS)
next
  assume "hostname \<notin> set INTERCEPT_DOMAINS"
  with assms show unknown: "classify hostname = UNKNOWN_SERVER"
    by (simp add: classify_def lookup_SERVER_ENDPOINTS)
  then show "\<forall>cfg rt e n req. request_hostname req = Some hostname \<longrightarrow>
      fst (handleProxyRequest cfg rt e n req) = respond 502 text_plain ''Bad Gateway: Unknown 2K server'' idle"
    by (simp add: unknown_server_response)
qed

lemma intercepted_api: "intercepted ''api.2ksports.com''"
  by (simp add: intercepted_def INTERCEPT_DOMAINS_def)

lemma intercepted_x_api: "intercepted ''x.api.2ksports.com''"
  by (simp add: intercepted_def INTERCEPT_DOMAINS_def)

theorem C1_classify_intercepted_witness:
  "intercepted ''api.2ksports.com'' \<and>
   classify ''api.2ksports.com'' = INTERCEPT \<lparr> host = ''api.2ksports.com'', port = 17217, protocol = ''https'' \<rparr> \<and>
   intercepted ''x.api.2ksports.com'' \<and>
   classify ''x.api.2ksports.com'' = UNKNOWN_SERVER"
proof -
  have a: "''api.2ksports.com'' \<in> set INTERCEPT_DOMAINS"
    by (simp add: INTERCEPT_DOMAINS_def)
  have b: "''x.api.2ksports.com'' \<notin> set INTERCEPT_DOMAINS"
    by (simp add: INTERCEPT_DOMAINS_def)
  from C1_classify_intercepted [OF intercepted_api] a
  have "classify ''api.2ksports.com'' = INTERCEPT (endpoint ''api.2ksports.com'')"
    by blast
  moreover from C1_classify_intercepted [OF intercepted_x_api] b
  have "classify ''x.api.2ksports.com'' = UNKNOWN_SERVER"
    by blast
  ultimately show ?thesis
    using intercepted_api intercepted_x_api by (simp add: endpoint_def)
qed

text \<open>
  C1 (as stated) fails: the hostname \<open>x.api.2ksports.com\<close> contains the registered domain
  \<open>api.2ksports.com\<close>, which is the first rule that matches it, and the request is answered
  with the 502 error response instead of a decision for that rule's target.
\<close>

theorem C1_counterexample:
  "intercepted ''x.api.2ksports.com'' \<and>
   first_matching_rule ''x.api.2ksports.com'' = Some ''api.2ksports.com'' \<and>
   classify ''x.api.2ksports.com'' = UNKNOWN_SERVER \<and>
   fst (handleProxyRequest CONFIG node
          \<lparr> clock = 0, now_iso = [], real_server = Responded 200 [] [],
            local_server = Answered 200 [] [], origin_server = Answered 200 [] [] \<rparr> 0
          \<lparr> req_url = \<lparr> url_hostname = Some ''x.api.2ksports.com'', url_port = None, url_path = ''/'' \<rparr>,
            req_method = ''GET'', req_headers = [(''host'', ''x.api.2ksports.com'')],
            req_stream = Complete [] \<rparr>) =
     \<lparr> issued = [],
       client = Some \<lparr> statusCode = 502, resp_headers = [(''Content-Type'', ''text/plain'')],
                       resp_body = ''Bad Gateway: Unknown 2K server'' \<rparr>,
       crashed = False \<rparr>"
proof -
  have c: "classify ''x.api.2ksports.com'' = UNKNOWN_SERVER"
    by (simp add: classify_def intercepted_def INTERCEPT_DOMAINS_def SERVER_ENDPOINTS_def)
  have f: "first_matching_rule ''x.api.2ksports.com'' = Some ''api.2ksports.com''"
    by (simp add: first_matching_rule_def INTERCEPT_DOMAINS_def)
  show ?thesis
    using c f intercepted_x_api
    by (simp add: unknown_server_response request_hostname_def respond_def idle_def text_plain_def)
qed

section \<open>CONNECT tunnels\<close>

lemma mitm_intercepted_ws: "mitm_intercepted (url_host ''nba2k17-ws.2ksports.com:443'')"
  by (simp add: mitm_intercepted_def mitm_INTERCEPT_DOMAINS_def url_host_def)

text \<open>
  C2. In the decrypt-and-redirect proxy, a CONNECT to an intercepted host with no key and
  certificate loaded is answered with the status line \<open>500 SSL Interception Not Available\<close>,
  the client socket is ended, no connection to an upstream is opened and no byte reaches one.
\<close>

theorem C2_refused_without_certificate:
  assumes "mitm_intercepted (url_host url)" and "key_file = None \<or> cert_file = None"
  shows "mitm_connect (sslOptions key_file cert_file) url head net =
           [ClientWrite (''HTTP/1.1 500 SSL Interception Not Available'' @ CRLF @ CRLF), ClientEnd] \<and>
         to_server later (mitm_connect (sslOptions key_file cert_file) url head net) = []"
proof -
  from assms(2) have "sslOptions key_file cert_file = None"
    by (auto simp: sslOptions_def split: option.splits)
  with assms(1) show ?thesis
    by (simp add: mitm_connect_def Let_def)
qed

theorem C2_refused_without_certificate_witness:
  "mitm_intercepted (url_host ''nba2k17-ws.2ksports.com:443'') \<and>
   mitm_connect (sslOptions None (Some ''cert'')) ''nba2k17-ws.2ksports.com:443'' ''hello'' Connected =
     [ClientWrite (''HTTP/1.1 500 SSL Interception Not Available'' @ CRLF @ CRLF), ClientEnd] \<and>
   to_server ''later'' (mitm_connect (sslOptions None (Some ''cert'')) ''nba2k17-ws.2ksports.com:443'' ''hello'' Connected) = []"
  using C2_refused_without_certificate [OF mitm_intercepted_ws, of None "Some ''cert''" "''hello''" Connected "''later''"]
    mitm_intercepted_ws
  by simp

lemma url_host_example: "url_host ''example.com:443'' = ''example.com''"
  by (simp add: url_host_def)

lemma url_port_example: "port_or_443 (url_port_part ''example.com:443'') = 443"
  by (simp add: url_port_part_def port_or_443_def parseInt_def is_space_def radix_digit_def
      radix_value_def Let_def)

lemma url_host_ws: "url_host ''nba2k17-ws.2ksports.com:443'' = ''nba2k17-ws.2ksports.com''"
  by (simp add: url_host_def)

lemma not_intercepted_example: "\<not> intercepted ''example.com''"
  by (simp add: intercepted_def INTERCEPT_DOMAINS_def)

lemma not_mitm_intercepted_example: "\<not> mitm_intercepted ''example.com''"
  by (simp add: mitm_intercepted_def mitm_INTERCEPT_DOMAINS_def)

lemma intercepted_ws: "intercepted ''nba2k17-ws.2ksports.com''"
  by (simp add: intercepted_def INTERCEPT_DOMAINS_def)

text \<open>
  C6 (the code at the failing input). A CONNECT to \<open>nba2k17-ws.2ksports.com:443\<close> arrives
  together with the first bytes \<open>hello\<close> of the tunnelled stream; the client then sends
  \<open>later\<close>. On the intercept path the upstream socket receives \<open>later\<close> only: the bytes
  that came with the request are lost. The pass-through path of the same function writes them
  to the upstream socket first.
\<close>

theorem C6_head_not_relayed:
  "fst (handleConnect 0 0 ''nba2k17-ws.2ksports.com:443'' ''hello'' Connected) =
     [NetConnect 17217 ''nba2k17-ws.2ksports.com'', ClientWrite established,
      PipeServerToClient, PipeClientToServer] \<and>
   to_server ''later'' (fst (handleConnect 0 0 ''nba2k17-ws.2ksports.com:443'' ''hello'' Connected)) = ''later'' \<and>
   to_server ''later'' (fst (handleConnect 0 0 ''example.com:443'' ''hello'' Connected)) = ''hellolater''"
  by (simp add: handleConnect_def generateRequestId_def url_host_ws url_host_example url_port_example
      intercepted_ws not_intercepted_example net_connect_def)

text \<open>The intercept path relays what the client sends after the request, and never the bytes
  that came with it.\<close>

lemma intercept_tunnel_relays_later_bytes:
  assumes "intercepted (url_host url)"
  shows "to_server later (fst (handleConnect n t url head Connected)) = later"
  using assms by (simp add: handleConnect_def generateRequestId_def net_connect_def Let_def)

text \<open>
  C8 (the code at the failing input). A CONNECT to \<open>example.com:443\<close>, a host that is not
  intercepted, whose connection attempt fails: both programs end the client socket without
  writing any status line. The intercept path of \<open>handleConnect\<close> writes \<open>502 Bad Gateway\<close>
  before it ends the socket.
\<close>

theorem C8_passthrough_failure_writes_nothing:
  "fst (handleConnect 0 0 ''example.com:443'' [] (ConnectError ''connect ECONNREFUSED'')) =
     [NetConnect 443 ''example.com'', ClientEnd] \<and>
   to_client (fst (handleConnect 0 0 ''example.com:443'' [] (ConnectError ''connect ECONNREFUSED''))) = [] \<and>
   mitm_connect None ''example.com:443'' [] (ConnectError ''connect ECONNREFUSED'') =
     [NetConnect 443 ''example.com'', ClientEnd] \<and>
   fst (handleConnect 0 0 ''nba2k17-ws.2ksports.com:443'' [] (ConnectError ''connect ECONNREFUSED'')) =
     [NetConnect 17217 ''nba2k17-ws.2ksports.com'',
      ClientWrite (''HTTP/1.1 502 Bad Gateway'' @ CRLF @ CRLF), ClientEnd]"
  by (simp add: handleConnect_def mitm_connect_def generateRequestId_def url_host_ws url_host_example
      url_port_example intercepted_ws not_intercepted_example not_mitm_intercepted_example net_connect_def)

text \<open>Where a handler answers an established connection, it writes the handshake line and
  nothing else to the client.\<close>

lemma established_handshake:
  assumes "ClientWrite established \<in> set (fst (handleConnect n t url head net))"
  shows "to_client (fst (handleConnect n t url head net)) = established"
  using assms
  by (auto simp: handleConnect_def generateRequestId_def net_connect_def Let_def established_def CRLF_def
      split: if_splits net_outcome.splits)

section \<open>Forwarding\<close>

lemma issued_respond [simp]: "issued (respond status hs body out) = issued out"
  by (simp add: respond_def split: option.splits)

lemma issued_request [simp]: "issued (request r out) = issued out @ [r]"
  by (simp add: request_def)

lemma client_request [simp]: "client (request r out) = client out"
  by (simp add: request_def)

lemma crashed_request [simp]: "crashed (request r out) = crashed out"
  by (simp add: request_def)

lemma client_respond:
  "client (respond status hs body out) =
     (case client out of
        None \<Rightarrow> Some \<lparr> statusCode = status, resp_headers = hs, resp_body = body \<rparr>
      | Some r \<Rightarrow> Some r)"
  by (simp add: respond_def split: option.splits)

lemma crashed_respond: "crashed (respond status hs body out) = (crashed out \<or> client out \<noteq> None)"
  by (auto simp: respond_def split: option.splits)

lemma idle_simps [simp]: "issued idle = []" "client idle = None" "crashed idle = False"
  by (simp_all add: idle_def)

lemma issued_forwardToLocalServer:
  "issued (forwardToLocalServer cfg e method path headers body out) =
     issued out @ [\<lparr> via_https = False, options = local_options cfg method path headers, sent_body = body \<rparr>]"
  by (simp add: forwardToLocalServer_def Let_def split: plain_outcome.splits)

lemma client_forwardToLocalServer:
  "client (forwardToLocalServer cfg e method path headers body out) =
     (case client out of
        Some r \<Rightarrow> Some r
      | None \<Rightarrow>
          (case local_server e of
             Answered status rhs rbody \<Rightarrow> Some \<lparr> statusCode = status, resp_headers = rhs, resp_body = rbody \<rparr>
           | Failed message \<Rightarrow>
               Some \<lparr> statusCode = 502, resp_headers = text_plain,
                      resp_body = ''Local Server Error: '' @ message \<rparr>))"
  by (simp add: forwardToLocalServer_def Let_def client_respond split: plain_outcome.splits option.splits)

lemma crashed_forwardToLocalServer:
  "crashed (forwardToLocalServer cfg e method path headers body out) = (crashed out \<or> client out \<noteq> None)"
  by (simp add: forwardToLocalServer_def Let_def crashed_respond split: plain_outcome.splits)

text \<open>
  C3. An intercept forward whose call to the real server fails, by an \<open>'error'\<close> event or by
  a timeout. With the fallback disabled the only request issued is the one to the real server
  and the client receives 502 (error) or 504 (timeout). With the fallback enabled exactly one
  more request is issued, to port \<open>LOCAL_SERVER_PORT\<close> of \<open>127.0.0.1\<close> over plain HTTP with the
  same method, path and body, and never a third; when that request fails too, the client has
  502 \<open>Local Server Error\<close> (after an error) or the 504 written by the timeout handler. After
  a timeout the late handlers find the response already sent, and the exception they raise
  ends the process.
\<close>

theorem C3_at_most_one_fallback:
  assumes "real_server e = Errored message \<or> real_server e = TimedOut message"
  shows
    "(let out = forwardToRealServer cfg rt e requestId method serverConfig path headers body idle;
          primary =
            \<lparr> via_https = (protocol serverConfig = ''https''),
              options =
                \<lparr> o_hostname = Some (host serverConfig), o_port = PortNumber (port serverConfig),
                  o_path = path, o_method = method,
                  o_headers = obj_set ''host'' (host serverConfig @ '':'' @ decimal (port serverConfig)) headers \<rparr>,
              sent_body = body \<rparr>;
          secondary =
            \<lparr> via_https = False,
              options =
                \<lparr> o_hostname = Some ''127.0.0.1'', o_port = PortNumber (LOCAL_SERVER_PORT cfg),
                  o_path = path, o_method = method,
                  o_headers = obj_set ''host'' (''127.0.0.1:'' @ decimal (LOCAL_SERVER_PORT cfg)) headers \<rparr>,
              sent_body = body \<rparr>;
          timeout = \<lparr> statusCode = 504, resp_headers = [(''Content-Type'', ''text/plain'')],
                      resp_body = ''Gateway Timeout'' \<rparr>
      in (\<not> FALLBACK_TO_LOCAL cfg \<longrightarrow>
            issued out = [primary] \<and>
            client out =
              Some (if real_server e = Errored message
                    then \<lparr> statusCode = 502, resp_headers = [(''Content-Type'', ''text/plain'')],
                           resp_body = ''Bad Gateway: '' @ message \<rparr>
                    else timeout)) \<and>
         (FALLBACK_TO_LOCAL cfg \<longrightarrow>
            issued out = [primary, secondary] \<and>
            (\<forall>message2. local_server e = Failed message2 \<longrightarrow>
               client out =
                 Some (if real_server e = Errored message
                       then \<lparr> statusCode = 502, resp_headers = [(''Content-Type'', ''text/plain'')],
                              resp_body = ''Local Server Error: '' @ message2 \<rparr>
                       else timeout))) \<and>
         length (issued out) \<le> 2 \<and>
         crashed out = (real_server e = TimedOut message))"
  using assms
  by (auto simp: forwardToRealServer_def on_error_def Let_def client_respond crashed_respond
      issued_forwardToLocalServer client_forwardToLocalServer crashed_forwardToLocalServer
      real_options_def local_options_def host_port_def text_plain_def)

lemma decimal_49767: "decimal 49767 = ''49767''"
  by (simp add: digit_char_def)

lemma decimal_17217: "decimal 17217 = ''17217''"
  by (simp add: digit_char_def)

theorem C3_at_most_one_fallback_witness:
  "(let e = \<lparr> clock = 0, now_iso = [], real_server = Errored ''connect ECONNREFUSED'',
               local_server = Failed ''connect EHOSTDOWN'', origin_server = Answered 200 [] [] \<rparr>;
        enabled = forwardToRealServer (CONFIG \<lparr> FALLBACK_TO_LOCAL := True \<rparr>) node e ''REQ-1-0'' ''GET''
                    (endpoint ''api.2ksports.com'') ''/user/profile'' [(''host'', ''api.2ksports.com'')] [] idle;
        disabled = forwardToRealServer CONFIG node e ''REQ-1-0'' ''GET''
                    (endpoint ''api.2ksports.com'') ''/user/profile'' [(''host'', ''api.2ksports.com'')] [] idle;
        primary =
          \<lparr> via_https = True,
            options = \<lparr> o_hostname = Some ''api.2ksports.com'', o_port = PortNumber 17217,
                        o_path = ''/user/profile'', o_method = ''GET'',
                        o_headers = [(''host'', ''api.2ksports.com:17217'')] \<rparr>,
            sent_body = [] \<rparr>;
        secondary =
          \<lparr> via_https = False,
            options = \<lparr> o_hostname = Some ''127.0.0.1'', o_port = PortNumber 49767,
                        o_path = ''/user/profile'', o_method = ''GET'',
                        o_headers = [(''host'', ''127.0.0.1:49767'')] \<rparr>,
            sent_body = [] \<rparr>
    in real_server e = Errored ''connect ECONNREFUSED'' \<and>
       local_server e = Failed ''connect EHOSTDOWN'' \<and>
       FALLBACK_TO_LOCAL (CONFIG \<lparr> FALLBACK_TO_LOCAL := True \<rparr>) \<and>
       issued enabled = [primary, secondary] \<and>
       client enabled = Some \<lparr> statusCode = 502, resp_headers = [(''Content-Type'', ''text/plain'')],
                                  resp_body = ''Local Server Error: connect EHOSTDOWN'' \<rparr> \<and>
       crashed enabled = False \<and>
       issued disabled = [primary] \<and>
       client disabled = Some \<lparr> statusCode = 502, resp_headers = [(''Content-Type'', ''text/plain'')],
                                   resp_body = ''Bad Gateway: connect ECONNREFUSED'' \<rparr> \<and>
       crashed disabled = False)"
  using C3_at_most_one_fallback [of
      "\<lparr> clock = 0, now_iso = [], real_server = Errored ''connect ECONNREFUSED'',
         local_server = Failed ''connect EHOSTDOWN'', origin_server = Answered 200 [] [] \<rparr>"
      "''connect ECONNREFUSED''" "CONFIG \<lparr> FALLBACK_TO_LOCAL := True \<rparr>" node "''REQ-1-0''" "''GET''"
      "endpoint ''api.2ksports.com''" "''/user/profile''" "[(''host'', ''api.2ksports.com'')]" "[]"]
    C3_at_most_one_fallback [of
      "\<lparr> clock = 0, now_iso = [], real_server = Errored ''connect ECONNREFUSED'',
         local_server = Failed ''connect EHOSTDOWN'', origin_server = Answered 200 [] [] \<rparr>"
      "''connect ECONNREFUSED''" CONFIG node "''REQ-1-0''" "''GET''"
      "endpoint ''api.2ksports.com''" "''/user/profile''" "[(''host'', ''api.2ksports.com'')]" "[]"]
  by (simp add: Let_def CONFIG_def endpoint_def obj_set_def decimal_49767 decimal_17217 digit_char_def)

text \<open>The fail-fast answers of \<open>forwardToRealServer\<close> with the fallback disabled: 502 with the
  message of the error, 504 for a timeout, one request only.\<close>

lemma fail_fast_real_server:
  assumes "\<not> FALLBACK_TO_LOCAL cfg"
  shows "real_server e = Errored message \<Longrightarrow>
           client (forwardToRealServer cfg rt e requestId method serverConfig path headers body idle) =
             Some \<lparr> statusCode = 502, resp_headers = text_plain, resp_body = ''Bad Gateway: '' @ message \<rparr>"
    and "real_server e = TimedOut message \<Longrightarrow>
           client (forwardToRealServer cfg rt e requestId method serverConfig path headers body idle) =
             Some \<lparr> statusCode = 504, resp_headers = text_plain, resp_body = ''Gateway Timeout'' \<rparr>"
    and "length (issued (forwardToRealServer cfg rt e requestId method serverConfig path headers body idle)) = 1"
  using assms
  by (auto simp: forwardToRealServer_def on_error_def Let_def client_respond split: upstream_outcome.splits)

text \<open>
  C4 (the code at the failing input). A request for \<open>http://example.com/\<close>, a host that is
  not intercepted, whose upstream connection is refused: \<open>forwardNormalRequest\<close> answers with
  status 500, no \<open>Content-Type\<close> and the fixed body \<open>Forward Error\<close>, where the specification asks for
  502 and a body that names the error.
\<close>

theorem C4_normal_request_failure_is_500:
  "fst (handleProxyRequest CONFIG node
          \<lparr> clock = 0, now_iso = [], real_server = Responded 200 [] [],
            local_server = Answered 200 [] [], origin_server = Failed ''connect ECONNREFUSED'' \<rparr> 0
          \<lparr> req_url = \<lparr> url_hostname = Some ''example.com'', url_port = None, url_path = ''/'' \<rparr>,
            req_method = ''GET'', req_headers = [(''host'', ''example.com'')],
            req_stream = Complete [] \<rparr>) =
     \<lparr> issued = [\<lparr> via_https = False,
                   options = \<lparr> o_hostname = Some ''example.com'', o_port = PortNumber 80, o_path = ''/'',
                               o_method = ''GET'', o_headers = [(''host'', ''example.com'')] \<rparr>,
                   sent_body = [] \<rparr>],
       client = Some \<lparr> statusCode = 500, resp_headers = [], resp_body = ''Forward Error'' \<rparr>,
       crashed = False \<rparr>"
proof -
  have "classify ''example.com'' = PASSTHROUGH"
    by (simp add: classify_def not_intercepted_example)
  then show ?thesis
    by (simp add: handleProxyRequest_def generateRequestId_def request_hostname_def
        forwardNormalRequest_def Let_def respond_def request_def idle_def)
qed


section \<open>Modification hooks\<close>

lemma collect_Nil [simp]: "collect rt [] = []"
  by (simp add: collect_def)

lemma collect_single [simp]: "collect rt [chunk] = Buffer_toString rt chunk"
  by (simp add: collect_def)

lemma example_classified: "classify ''api.2ksports.com'' = INTERCEPT (endpoint ''api.2ksports.com'')"
  by (simp add: classify_def intercepted_api lookup_SERVER_ENDPOINTS INTERCEPT_DOMAINS_def)

lemma example_hostname: "request_hostname example_request = Some ''api.2ksports.com''"
  by (simp add: request_hostname_def example_request_def)

lemma example_id: "generateRequestId 0 (clock example_env) = (''REQ-1-0'', 1)"
  by (simp add: generateRequestId_def example_env_def)

lemma example_stream: "req_stream example_request = Complete []"
  by (simp add: example_request_def)

lemma decode_vc: \<open>utf8_toString ''{"vc":500}'' = ''{"vc":500}''\<close>
  by code_simp

lemma intercept_handler:
  assumes "classify hostname = INTERCEPT serverConfig"
    and "request_hostname req = Some hostname"
    and "req_stream req = Complete chunks"
    and "generateRequestId n (clock e) = (requestId, counter')"
  shows "fst (handleProxyRequest cfg rt e n req) =
           forwardToRealServer cfg rt e requestId (req_method req) serverConfig
             (m_path (modifyRequest cfg (now_iso e) requestId (req_method req)
                        (url_path (req_url req)) (req_headers req) (collect rt chunks)))
             (m_headers (modifyRequest cfg (now_iso e) requestId (req_method req)
                        (url_path (req_url req)) (req_headers req) (collect rt chunks)))
             (m_body (modifyRequest cfg (now_iso e) requestId (req_method req)
                        (url_path (req_url req)) (req_headers req) (collect rt chunks))) idle"
  using assms by (simp add: handleProxyRequest_def Let_def)

text \<open>
  C7 (amended). For a buffered intercept forward with modifications enabled, the request sent
  upstream carries \<open>X-Proxy-Request-ID\<close> and, when the real server responds, the response
  written to the client carries \<open>X-Proxy-Response-ID\<close>, both equal to the identifier of the
  request. With modifications disabled no header is added: the upstream request has the
  client's headers with \<open>host\<close> replaced, and the response is written with the status and the
  headers of the real server.
\<close>

theorem C7_correlation_id_when_enabled:
  assumes "classify hostname = INTERCEPT serverConfig"
    and "request_hostname req = Some hostname"
    and "req_stream req = Complete requestChunks"
  shows
    "(let requestId = fst (generateRequestId n (clock e));
          out = fst (handleProxyRequest cfg rt e n req)
      in (ENABLE_MODIFICATIONS cfg \<longrightarrow>
            (\<exists>r later. issued out = r # later \<and>
               obj_get (o_headers (options r)) ''X-Proxy-Request-ID'' = Some requestId) \<and>
            (\<forall>status rhs chunks. real_server e = Responded status rhs chunks \<longrightarrow>
               (\<exists>written. client out = Some written \<and>
                  obj_get (resp_headers written) ''X-Proxy-Response-ID'' = Some requestId))) \<and>
         (\<not> ENABLE_MODIFICATIONS cfg \<longrightarrow>
            (\<exists>r later. issued out = r # later \<and>
               o_headers (options r) =
                 obj_set ''host'' (host serverConfig @ '':'' @ decimal (port serverConfig)) (req_headers req)) \<and>
            (\<forall>status rhs chunks. real_server e = Responded status rhs chunks \<longrightarrow>
               (\<exists>written. client out = Some written \<and>
                  statusCode written = status \<and> resp_headers written = rhs))))"
proof -
  obtain requestId counter' where g: "generateRequestId n (clock e) = (requestId, counter')"
    by (cases "generateRequestId n (clock e)")
  define sent where "sent = modifyRequest cfg (now_iso e) requestId (req_method req)
      (url_path (req_url req)) (req_headers req) (collect rt requestChunks)"
  define out where "out = forwardToRealServer cfg rt e requestId (req_method req) serverConfig
      (m_path sent) (m_headers sent) (m_body sent) idle"
  have handler: "fst (handleProxyRequest cfg rt e n req) = out"
    using intercept_handler [OF assms g] by (simp add: out_def sent_def)
  have first: "\<exists>later. issued out =
      \<lparr> via_https = (protocol serverConfig = ''https''),
        options = real_options serverConfig (req_method req) (m_path sent) (m_headers sent),
        sent_body = m_body sent \<rparr> # later"
    by (simp add: out_def forwardToRealServer_def on_error_def Let_def issued_forwardToLocalServer
        split: upstream_outcome.splits)
  have enabled_request: "obj_get (o_headers (real_options serverConfig (req_method req) (m_path sent) (m_headers sent)))
      ''X-Proxy-Request-ID'' = Some requestId" if "ENABLE_MODIFICATIONS cfg"
    using that by (simp add: sent_def modifyRequest_def real_options_def Let_def map_of_obj_set)
  have disabled_request: "o_headers (real_options serverConfig (req_method req) (m_path sent) (m_headers sent)) =
      obj_set ''host'' (host serverConfig @ '':'' @ decimal (port serverConfig)) (req_headers req)"
    if "\<not> ENABLE_MODIFICATIONS cfg"
    using that by (simp add: sent_def modifyRequest_def real_options_def host_port_def)
  have response: "client out = Some (modifyResponse cfg rt requestId status rhs (collect rt chunks))"
    if "real_server e = Responded status rhs chunks" for status rhs chunks
    using that by (simp add: out_def forwardToRealServer_def Let_def client_respond)
  have enabled_response: "obj_get (resp_headers (modifyResponse cfg rt requestId status rhs decoded))
      ''X-Proxy-Response-ID'' = Some requestId" if "ENABLE_MODIFICATIONS cfg" for status rhs decoded
    using that by (simp add: modifyResponse_def Let_def map_of_obj_set split: option.splits)
  have disabled_response: "statusCode (modifyResponse cfg rt requestId status rhs decoded) = status \<and>
      resp_headers (modifyResponse cfg rt requestId status rhs decoded) = rhs"
    if "\<not> ENABLE_MODIFICATIONS cfg" for status rhs decoded
    using that by (simp add: modifyResponse_def)
  show ?thesis
    unfolding Let_def handler g fst_conv
    using first enabled_request disabled_request response enabled_response disabled_response
    by (metis upstream_request.select_convs(2))
qed

theorem C7_correlation_id_when_enabled_witness:
  "classify ''api.2ksports.com'' = INTERCEPT (endpoint ''api.2ksports.com'') \<and>
   request_hostname example_request = Some ''api.2ksports.com'' \<and>
   req_stream example_request = Complete [] \<and>
   ENABLE_MODIFICATIONS CONFIG \<and>
   (\<exists>r later. issued (fst (handleProxyRequest CONFIG node example_env 0 example_request)) = r # later \<and>
      obj_get (o_headers (options r)) ''X-Proxy-Request-ID'' = Some ''REQ-1-0'') \<and>
   (\<exists>written. client (fst (handleProxyRequest CONFIG node example_env 0 example_request)) = Some written \<and>
      obj_get (resp_headers written) ''X-Proxy-Response-ID'' = Some ''REQ-1-0'')"
proof -
  have m: "ENABLE_MODIFICATIONS CONFIG"
    by (simp add: CONFIG_def)
  have r: "\<exists>status rhs chunks. real_server example_env = Responded status rhs chunks"
    by (simp add: example_env_def)
  from C7_correlation_id_when_enabled [OF example_classified example_hostname example_stream,
      of 0 example_env CONFIG node] m r
  have "(\<exists>r later. issued (fst (handleProxyRequest CONFIG node example_env 0 example_request)) = r # later \<and>
      obj_get (o_headers (options r)) ''X-Proxy-Request-ID'' = Some ''REQ-1-0'') \<and>
   (\<exists>written. client (fst (handleProxyRequest CONFIG node example_env 0 example_request)) = Some written \<and>
      obj_get (resp_headers written) ''X-Proxy-Response-ID'' = Some ''REQ-1-0'')"
    unfolding Let_def example_id fst_conv by blast
  with example_classified example_hostname example_stream m show ?thesis
    by blast
qed

text \<open>
  C7 (as stated) fails: with \<open>ENABLE_MODIFICATIONS\<close> set to false, the example request is sent
  upstream with the \<open>host\<close> header only, and the response is written with the headers of the
  real server only; neither carries the identifier \<open>REQ-1-0\<close> of the request.
\<close>

theorem C7_counterexample:
  \<open>generateRequestId 0 (clock example_env) = (''REQ-1-0'', 1) \<and>
   fst (handleProxyRequest (CONFIG \<lparr> ENABLE_MODIFICATIONS := False \<rparr>) node example_env 0 example_request) =
     \<lparr> issued = [\<lparr> via_https = True,
                   options = \<lparr> o_hostname = Some ''api.2ksports.com'', o_port = PortNumber 17217,
                               o_path = ''/user/profile'', o_method = ''GET'',
                               o_headers = [(''host'', ''api.2ksports.com:17217'')] \<rparr>,
                   sent_body = [] \<rparr>],
       client = Some \<lparr> statusCode = 200, resp_headers = [(''content-type'', ''application/json'')],
                       resp_body = ''{"vc":500}'' \<rparr>,
       crashed = False \<rparr>\<close>
  unfolding intercept_handler [OF example_classified example_hostname example_stream example_id]
  by (simp add: generateRequestId_def example_request_def example_env_def modifyRequest_def modifyResponse_def
      CONFIG_def forwardToRealServer_def real_options_def endpoint_def host_port_def digit_char_def
      obj_set_def respond_def request_def idle_def Let_def node_def decode_vc
      del: utf8_toString.simps)

section \<open>Response bodies\<close>

text \<open>With modifications enabled, the response of the real server is written to the client
  with the header \<open>X-Proxy-Response-ID\<close> added; its body is the serialization of the parsed
  text when the decoded text parses as JSON and the \<open>try\<close> block runs to its end, and the
  decoded text as it is otherwise.\<close>

lemma modified_response_body:
  assumes "ENABLE_MODIFICATIONS cfg"
    and "real_server e = Responded status rhs chunks"
  shows "client (forwardToRealServer cfg rt e requestId method serverConfig path headers body idle) =
           Some \<lparr> statusCode = status,
                  resp_headers = obj_set ''X-Proxy-Response-ID'' requestId rhs,
                  resp_body =
                    (case JSON_parse rt (collect rt chunks) of
                       None \<Rightarrow> collect rt chunks
                     | Some bodyData \<Rightarrow>
                         if reads_vc bodyData then JSON_stringify rt bodyData else collect rt chunks) \<rparr>"
  using assms
  by (simp add: forwardToRealServer_def modifyResponse_def Let_def client_respond split: option.splits)

lemma parse_spaced_vc: \<open>json_parse ''{ "vc" : 500 }'' = Some (JObj [(''vc'', JNum (Finite 500 0))])\<close>
  by code_simp

lemma stringify_vc: \<open>json_stringify (JObj [(''vc'', JNum (Finite 500 0))]) = ''{"vc":500}''\<close>
  by code_simp

lemma decode_spaced_vc: \<open>utf8_toString ''{ "vc" : 500 }'' = ''{ "vc" : 500 }''\<close>
  by code_simp

text \<open>A body that is JSON with spaces is written without them.\<close>

lemma spaced_body_reserialized:
  \<open>client (forwardToRealServer CONFIG node
             (example_env \<lparr> real_server := Responded 200 [] [''{ "vc" : 500 }''] \<rparr>)
             ''REQ-1-0'' ''GET'' (endpoint ''api.2ksports.com'') ''/user/profile'' [] [] idle) =
     Some \<lparr> statusCode = 200, resp_headers = [(''X-Proxy-Response-ID'', ''REQ-1-0'')],
            resp_body = ''{"vc":500}'' \<rparr>\<close>
proof -
  have m: "ENABLE_MODIFICATIONS CONFIG"
    by (simp add: CONFIG_def)
  have r: \<open>real_server (example_env \<lparr> real_server := Responded 200 [] [''{ "vc" : 500 }''] \<rparr>) =
      Responded 200 [] [''{ "vc" : 500 }'']\<close>
    by simp
  show ?thesis
    using modified_response_body [OF m r, of node "''REQ-1-0''" "''GET''" "endpoint ''api.2ksports.com''"
        "''/user/profile''" "[]" "[]"]
    by (simp add: node_def decode_spaced_vc parse_spaced_vc stringify_vc obj_set_def index_key_def is_digit_def
        del: json_stringify.simps utf8_toString.simps)
qed

lemma parse_spaced_null: "json_parse '' null'' = Some JNull"
  by code_simp

lemma decode_spaced_null: "utf8_toString '' null'' = '' null''"
  by code_simp

text \<open>
  C10 (the code at the failing input). The real server answers with the body \<open>null\<close> preceded
  by a space, in one chunk. The text parses as JSON, to \<open>null\<close>, whose serialization is
  \<open>null\<close> without the space. Reading \<open>bodyData.vc\<close> throws on \<open>null\<close>, the exception lands in
  the \<open>catch\<close> meant for texts that are not JSON, and the client receives the text with the
  space, as it came, instead of the serialization.
\<close>

theorem C10_null_body_written_as_it_came:
  "collect node ['' null''] = '' null'' \<and>
   JSON_parse node '' null'' = Some JNull \<and>
   JSON_stringify node JNull = ''null'' \<and>
   client (forwardToRealServer CONFIG node (example_env \<lparr> real_server := Responded 200 [] ['' null''] \<rparr>)
             ''REQ-1-0'' ''GET'' (endpoint ''api.2ksports.com'') ''/user/profile'' [] [] idle) =
     Some \<lparr> statusCode = 200, resp_headers = [(''X-Proxy-Response-ID'', ''REQ-1-0'')],
            resp_body = '' null'' \<rparr>"
  by (simp add: node_def decode_spaced_null parse_spaced_null forwardToRealServer_def modifyResponse_def
      CONFIG_def Let_def client_respond obj_set_def index_key_def is_digit_def
      del: utf8_toString.simps)

section \<open>Sanitization\<close>

lemma sanitizeHeaders_idem: "sanitizeHeaders (sanitizeHeaders headers) = sanitizeHeaders headers"
proof -
  have "obj_delete a (obj_delete b (obj_delete c (obj_delete a (obj_delete b (obj_delete c kvs))))) =
        obj_delete a (obj_delete b (obj_delete c kvs))" for a b c :: string and kvs :: "'a obj"
    by (auto simp: AList.delete_eq intro!: filter_cong)
  then show ?thesis
    by (simp add: sanitizeHeaders_def)
qed

lemma sanitizeBody_empty: "sanitizeBody rt (JStr []) = Inr JNull"
  by (simp add: sanitizeBody_def)

lemma sanitizeBody_null: "sanitizeBody rt JNull = Inr JNull"
  by (simp add: sanitizeBody_def)

lemma sanitizeBody_unparsed:
  assumes "body \<noteq> []" and "JSON_parse rt body = None"
  shows "sanitizeBody rt (JStr body) =
           Inr (JStr (if 200 < length body then take 200 body @ ''...'' else body))"
  using assms by (simp add: sanitizeBody_def sanitize_try_def)

lemma sanitizeBody_object:
  assumes "body \<noteq> []" and "JSON_parse rt body = Some (JObj kvs)"
  shows "sanitizeBody rt (JStr body) =
           Inr (JObj (obj_delete ''sessionToken'' (obj_delete ''token'' (obj_delete ''password'' kvs))))"
  using assms by (simp add: sanitizeBody_def sanitize_try_def)

lemma sanitizeBody_of_object:
  assumes "obj_get kvs ''length'' = None" and "JSON_parse rt ''[object Object]'' = None"
  shows "sanitizeBody rt (JObj kvs) = Inr (JObj kvs)"
  using assms by (simp add: sanitizeBody_def sanitize_try_def)

text \<open>
  C9 (amended). Sanitizing headers twice gives what sanitizing them once gives. Sanitizing a
  body twice gives what sanitizing it once gives when the body is empty; when the body does not
  parse as JSON (and, for a body longer than 200 characters, neither does its truncation, which
  ends in three dots); and when the body parses to an object without a property \<open>length\<close>
  (the text \<open>[object Object]\<close> not being JSON), whose credential fields stay removed.
\<close>

theorem C9_sanitize_idempotent:
  "sanitizeHeaders (sanitizeHeaders headers) = sanitizeHeaders headers \<and>
   sanitizeBody_twice rt (JStr []) = sanitizeBody rt (JStr []) \<and>
   (JSON_parse rt body = None \<and>
    (200 < length body \<longrightarrow> JSON_parse rt (take 200 body @ ''...'') = None) \<longrightarrow>
      sanitizeBody_twice rt (JStr body) = sanitizeBody rt (JStr body)) \<and>
   (\<forall>kvs. JSON_parse rt body = Some (JObj kvs) \<and> obj_get kvs ''length'' = None \<and>
          JSON_parse rt ''[object Object]'' = None \<and> body \<noteq> [] \<longrightarrow>
      sanitizeBody rt (JStr body) =
        Inr (JObj (obj_delete ''sessionToken'' (obj_delete ''token'' (obj_delete ''password'' kvs)))) \<and>
      sanitizeBody_twice rt (JStr body) = sanitizeBody rt (JStr body))"
proof (intro conjI impI allI)
  show "sanitizeHeaders (sanitizeHeaders headers) = sanitizeHeaders headers"
    by (rule sanitizeHeaders_idem)
next
  show "sanitizeBody_twice rt (JStr []) = sanitizeBody rt (JStr [])"
    by (simp add: sanitizeBody_twice_def sanitizeBody_empty sanitizeBody_null)
next
  assume a: "JSON_parse rt body = None \<and>
    (200 < length body \<longrightarrow> JSON_parse rt (take 200 body @ ''...'') = None)"
  show "sanitizeBody_twice rt (JStr body) = sanitizeBody rt (JStr body)"
  proof (cases "body = []")
    case True
    then show ?thesis
      by (simp add: sanitizeBody_twice_def sanitizeBody_empty sanitizeBody_null)
  next
    case False
    show ?thesis
    proof (cases "200 < length body")
      case short: False
      with a False show ?thesis
        by (simp add: sanitizeBody_twice_def sanitizeBody_unparsed)
    next
      case long: True
      define t where "t = take 200 body @ ''...''"
      have once: "sanitizeBody rt (JStr body) = Inr (JStr t)"
        using a False long by (simp add: sanitizeBody_unparsed t_def)
      have "t \<noteq> []" and "JSON_parse rt t = None" and "200 < length t" and "take 200 t = take 200 body"
        using a long by (simp_all add: t_def)
      then have "sanitizeBody rt (JStr t) = Inr (JStr t)"
        by (simp add: sanitizeBody_unparsed t_def)
      with once show ?thesis
        by (simp add: sanitizeBody_twice_def)
    qed
  qed
next
  fix kvs
  assume a: "JSON_parse rt body = Some (JObj kvs) \<and> obj_get kvs ''length'' = None \<and>
    JSON_parse rt ''[object Object]'' = None \<and> body \<noteq> []"
  then show once: "sanitizeBody rt (JStr body) =
      Inr (JObj (obj_delete ''sessionToken'' (obj_delete ''token'' (obj_delete ''password'' kvs))))"
    by (simp add: sanitizeBody_object)
  from a have "obj_get (obj_delete ''sessionToken'' (obj_delete ''token'' (obj_delete ''password'' kvs)))
      ''length'' = None"
    by (simp add: delete_conv')
  with a have "sanitizeBody rt (JObj (obj_delete ''sessionToken'' (obj_delete ''token'' (obj_delete ''password'' kvs)))) =
      Inr (JObj (obj_delete ''sessionToken'' (obj_delete ''token'' (obj_delete ''password'' kvs))))"
    by (simp add: sanitizeBody_of_object)
  with once show "sanitizeBody_twice rt (JStr body) = sanitizeBody rt (JStr body)"
    by (simp add: sanitizeBody_twice_def)
qed

lemma parse_plain_text: "json_parse ''user=alice'' = None"
  by code_simp

lemma parse_long_text: "json_parse (replicate 250 CHR ''x'') = None"
  by code_simp

lemma parse_truncated_text: "json_parse (replicate 200 CHR ''x'' @ ''...'') = None"
  by code_simp

lemma parse_object_Object: "json_parse ''[object Object]'' = None"
  by code_simp

lemma parse_login: \<open>json_parse ''{"user":"alice","password":"secret"}'' =
    Some (JObj [(''user'', JStr ''alice''), (''password'', JStr ''secret'')])\<close>
  by code_simp

lemma parse_false: "json_parse ''false'' = Some (JBool False)"
  by code_simp

theorem C9_sanitize_idempotent_witness:
  \<open>JSON_parse node ''user=alice'' = None \<and>
   sanitizeBody_twice node (JStr ''user=alice'') = sanitizeBody node (JStr ''user=alice'') \<and>
   JSON_parse node (replicate 250 CHR ''x'') = None \<and>
   JSON_parse node (take 200 (replicate 250 CHR ''x'') @ ''...'') = None \<and>
   sanitizeBody_twice node (JStr (replicate 250 CHR ''x'')) = sanitizeBody node (JStr (replicate 250 CHR ''x'')) \<and>
   JSON_parse node ''{"user":"alice","password":"secret"}'' =
     Some (JObj [(''user'', JStr ''alice''), (''password'', JStr ''secret'')]) \<and>
   JSON_parse node ''[object Object]'' = None \<and>
   sanitizeBody node (JStr ''{"user":"alice","password":"secret"}'') = Inr (JObj [(''user'', JStr ''alice'')]) \<and>
   sanitizeBody_twice node (JStr ''{"user":"alice","password":"secret"}'') =
     sanitizeBody node (JStr ''{"user":"alice","password":"secret"}'')\<close>
proof -
  have p1: "JSON_parse node ''user=alice'' = None"
    by (simp add: node_def parse_plain_text)
  have p2: "JSON_parse node (replicate 250 CHR ''x'') = None"
    by (simp only: node_def runtime.simps parse_long_text)
  have p3: "JSON_parse node (take 200 (replicate 250 CHR ''x'') @ ''...'') = None"
  proof -
    have "take 200 (replicate 250 CHR ''x'') = replicate 200 CHR ''x''"
      by simp
    then show ?thesis
      by (simp only: node_def runtime.simps parse_truncated_text)
  qed
  have p4: \<open>JSON_parse node ''{"user":"alice","password":"secret"}'' =
      Some (JObj [(''user'', JStr ''alice''), (''password'', JStr ''secret'')])\<close>
    by (simp add: node_def parse_login)
  have p5: "JSON_parse node ''[object Object]'' = None"
    by (simp add: node_def parse_object_Object)
  have l: "obj_get [(''user'', JStr ''alice''), (''password'', JStr ''secret'')] ''length'' = None"
    by simp
  note t = C9_sanitize_idempotent
  have short: "\<not> 200 < length ''user=alice''"
    by simp
  from t [of "[]" node "''user=alice''"] p1 short
  have w1: "sanitizeBody_twice node (JStr ''user=alice'') = sanitizeBody node (JStr ''user=alice'')"
    by blast
  from t [of "[]" node "replicate 250 CHR ''x''"] p2 p3
  have w2: "sanitizeBody_twice node (JStr (replicate 250 CHR ''x'')) =
      sanitizeBody node (JStr (replicate 250 CHR ''x''))"
    by blast
  from t [of "[]" node \<open>''{"user":"alice","password":"secret"}''\<close>] p4 p5 l
  have w3: \<open>sanitizeBody node (JStr ''{"user":"alice","password":"secret"}'') =
        Inr (JObj (obj_delete ''sessionToken'' (obj_delete ''token'' (obj_delete ''password''
          [(''user'', JStr ''alice''), (''password'', JStr ''secret'')])))) \<and>
      sanitizeBody_twice node (JStr ''{"user":"alice","password":"secret"}'') =
        sanitizeBody node (JStr ''{"user":"alice","password":"secret"}'')\<close>
    by blast
  have d: "obj_delete ''sessionToken'' (obj_delete ''token'' (obj_delete ''password''
      [(''user'', JStr ''alice''), (''password'', JStr ''secret'')])) = [(''user'', JStr ''alice'')]"
    by (simp add: AList.delete_eq)
  from p1 p2 p3 p4 p5 w1 w2 w3 show ?thesis
    unfolding d by blast
qed

text \<open>
  C9 (as stated) fails: the body \<open>false\<close> is JSON, so the first pass returns the boolean
  \<open>false\<close>; the second pass finds its argument falsy and returns \<open>null\<close>.
\<close>

theorem C9_counterexample:
  "sanitizeBody node (JStr ''false'') = Inr (JBool False) \<and>
   sanitizeBody_twice node (JStr ''false'') = Inr JNull"
  by (simp add: sanitizeBody_twice_def sanitizeBody_def sanitize_try_def node_def parse_false)

end
